theory Spec2Isabelle
  imports Main "HOL-Library.Word"
begin

unbundle bit_operations_syntax

section \<open>Byte strings, errors and Python sequence operations\<close>

text \<open>
  The module \<^verbatim>\<open>btcrecover/aezeed.py\<close> decodes aezeed cipher-seed mnemonics. It works on
  Python \<^verbatim>\<open>bytes\<close> and \<^verbatim>\<open>bytearray\<close> values, whose elements are integers
  \<open>0..255\<close>: they are lists of 8-bit words here, and the source's \<^verbatim>\<open>& 0xFF\<close> after a
  shift is the truncation of the word operation. A block is a 16-byte \<^verbatim>\<open>bytearray\<close>.
  A Python \<^verbatim>\<open>str\<close> whose content is encoded is a list of Unicode code points; the
  mnemonic words, which are only looked up in a dictionary, are \<open>string\<close>s.
\<close>

type_synonym byte = "8 word"
type_synonym bytes = "byte list"
type_synonym block = "byte list"
type_synonym pystr = "nat list"

text \<open>
  The exceptions that the modelled code can raise: the module's own two
  (\<^verbatim>\<open>InvalidMnemonicError\<close> with its message, \<^verbatim>\<open>InvalidPassphraseError\<close>) and the
  built-in ones of an out-of-range index, a failed \<^verbatim>\<open>assert\<close> and an unencodable string.
\<close>

datatype error =
    InvalidMnemonicError string
  | InvalidPassphraseError
  | IndexError
  | AssertionError
  | UnicodeEncodeError

text \<open>\<^verbatim>\<open>xs[a:b]\<close> for \<open>0 \<le> a\<close>, \<open>0 \<le> b\<close>: Python clips both bounds to the length.\<close>

definition py_slice :: "'a list \<Rightarrow> nat \<Rightarrow> nat \<Rightarrow> 'a list" where
  "py_slice xs a b = take (b - a) (drop a xs)"

text \<open>
  \<^verbatim>\<open>xs[a:b] = v\<close> on a \<^verbatim>\<open>bytearray\<close> or a list, for \<open>0 \<le> a\<close>, \<open>0 \<le> b\<close>: the
  elements from \<open>a\<close> up to \<open>b\<close> are replaced by \<open>v\<close>, whatever the length of \<open>v\<close>.
\<close>

definition slice_assign :: "'a list \<Rightarrow> nat \<Rightarrow> nat \<Rightarrow> 'a list \<Rightarrow> 'a list" where
  "slice_assign xs a b v = take a xs @ v @ drop (max a b) xs"

text \<open>\<^verbatim>\<open>xs[i]\<close> for any integer \<open>i\<close>: a negative index counts from the end.\<close>

definition py_index :: "'a list \<Rightarrow> int \<Rightarrow> error + 'a" where
  "py_index xs i =
     (if 0 \<le> i \<and> i < int (length xs) then Inr (xs ! nat i)
      else if i < 0 \<and> - int (length xs) \<le> i then Inr (xs ! nat (int (length xs) + i))
      else Inl IndexError)"

text \<open>\<^verbatim>\<open>xs[:k]\<close> for any integer \<open>k\<close>: a negative bound counts from the end.\<close>

definition py_slice_to :: "'a list \<Rightarrow> int \<Rightarrow> 'a list" where
  "py_slice_to xs k = (if k < 0 then take (nat (int (length xs) + k)) xs else take (nat k) xs)"

text \<open>\<^verbatim>\<open>int.from_bytes(bs, "big")\<close> and \<^verbatim>\<open>v.to_bytes(4, "big")\<close>.\<close>

definition from_bytes_be :: "bytes \<Rightarrow> int" where
  "from_bytes_be bs = foldl (\<lambda>acc b. acc * 256 + uint b) 0 bs"

definition to_bytes_be4 :: "32 word \<Rightarrow> bytes" where
  "to_bytes_be4 v = [ucast (drop_bit 24 v), ucast (drop_bit 16 v), ucast (drop_bit 8 v), ucast v]"

section \<open>Constants of the format\<close>

definition DEFAULT_PASSPHRASE :: pystr where
  "DEFAULT_PASSPHRASE = [97, 101, 122, 101, 101, 100]"

definition EncipheredCipherSeedSize :: nat where "EncipheredCipherSeedSize = 33"
definition DecipheredCipherSeedSize :: nat where "DecipheredCipherSeedSize = 19"
definition SaltSize :: nat where "SaltSize = 5"
definition CipherTextExpansion :: nat where "CipherTextExpansion = 4"
definition BitsPerWord :: nat where "BitsPerWord = 11"
definition CipherSeedVersion :: byte where "CipherSeedVersion = 0"

record DecipheredCipherSeed =
  entropy :: bytes
  salt :: bytes
  internal_version :: byte
  birthday :: int

section \<open>CRC32C\<close>

definition CRC32C_POLY :: int where
  "CRC32C_POLY = 0x82F63B78"

text \<open>One pass of the inner loop of \<^verbatim>\<open>_crc32c_table\<close>, on Python's unbounded integers.\<close>

definition crc32c_bit_step :: "int \<Rightarrow> int" where
  "crc32c_bit_step crc =
     (if crc AND 1 \<noteq> 0 then drop_bit 1 crc XOR CRC32C_POLY else drop_bit 1 crc)"

definition crc32c_table_entry :: "int \<Rightarrow> int" where
  "crc32c_table_entry i = ((crc32c_bit_step ^^ 8) i) AND 0xFFFFFFFF"

definition crc32c_table :: "int list" where
  "crc32c_table = map (\<lambda>i. crc32c_table_entry (int i)) [0..<256]"

text \<open>
  \<^verbatim>\<open>_crc32c\<close>: the table index \<^verbatim>\<open>(crc ^ b) & 0xFF\<close> is always below 256, the length of
  the table.
\<close>

definition crc32c :: "bytes \<Rightarrow> int" where
  "crc32c data =
     (NOT (foldl (\<lambda>crc b. (crc32c_table ! nat ((crc XOR uint b) AND 0xFF)) XOR drop_bit 8 crc)
             0xFFFFFFFF data)) AND 0xFFFFFFFF"

section \<open>Block primitives\<close>

definition BLOCK_SIZE :: nat where "BLOCK_SIZE = 16"
definition EXTRACTED_KEY_SIZE :: nat where "EXTRACTED_KEY_SIZE = 3 * BLOCK_SIZE"

definition mk_block :: "nat \<Rightarrow> bytes" where
  "mk_block n = replicate n 0"

definition ZERO_BLOCK :: block where
  "ZERO_BLOCK = mk_block BLOCK_SIZE"

text \<open>
  \<^verbatim>\<open>_xor_bytes1x16(a, b, dst)\<close> and \<^verbatim>\<open>_xor_bytes4x16(a, b, c, d, dst)\<close> write the 16
  bytes of \<open>dst\<close> one index at a time. Every \<open>dst\<close> the module passes is a 16-byte block or
  a 16-byte view, so the functions return the new content of \<open>dst\<close>. Where \<open>dst\<close> is also
  an operand, index \<open>i\<close> is read before it is written, so the aliasing changes nothing.
  The operands are blocks of at least 16 bytes at every call.
\<close>

definition xor_bytes1x16 :: "bytes \<Rightarrow> bytes \<Rightarrow> block" where
  "xor_bytes1x16 a b = map (\<lambda>i. (a ! i) XOR (b ! i)) [0..<BLOCK_SIZE]"

definition xor_bytes4x16 :: "bytes \<Rightarrow> bytes \<Rightarrow> bytes \<Rightarrow> bytes \<Rightarrow> block" where
  "xor_bytes4x16 a b c d = map (\<lambda>i. (a ! i) XOR (b ! i) XOR (c ! i) XOR (d ! i)) [0..<BLOCK_SIZE]"

text \<open>\<^verbatim>\<open>_uint32(i)\<close> is \<^verbatim>\<open>i & 0xFFFFFFFF\<close>; \<^verbatim>\<open>_uint8(i)\<close> is \<^verbatim>\<open>i & 0xFF\<close>, used as an index.\<close>

definition uint32 :: "int \<Rightarrow> 32 word" where
  "uint32 i = word_of_int i"

definition uint8 :: "32 word \<Rightarrow> nat" where
  "uint8 w = unat (w AND 0xFF)"

text \<open>
  \<^verbatim>\<open>_extract_key\<close>. BLAKE2b is \<^verbatim>\<open>hashlib\<close>'s, not this module's: it is a parameter.
  With \<^verbatim>\<open>digest_size=48\<close> it returns 48 bytes.
\<close>

definition extract_key :: "(bytes \<Rightarrow> bytes) \<Rightarrow> bytes \<Rightarrow> bytes" where
  "extract_key blake2b key = (if length key = EXTRACTED_KEY_SIZE then key else blake2b key)"

text \<open>
  \<^verbatim>\<open>_double_block(p)\<close> updates \<open>p\<close> in place, index by index from 0 to 14 and then index 15,
  which uses the first byte as it was on entry.
\<close>

definition double_block :: "block \<Rightarrow> block" where
  "double_block p =
     (let tmp = p ! 0;
          p1 = foldl (\<lambda>q i. q[i := push_bit 1 (q ! i) OR drop_bit 7 (q ! (i + 1))]) p [0..<15]
      in p1[15 := (push_bit 1 (p1 ! 15) AND 0xFE) XOR (if tmp AND 0x80 \<noteq> 0 then 0x87 else 0)])"

text \<open>
  The loop of \<^verbatim>\<open>_mult_block\<close>, on the multiplier \<open>x\<close>, the running power \<open>t\<close> and the
  accumulator \<open>r\<close>. The module calls it with \<open>x = 2\<close> and \<open>x = 5 + k\<close> for an index
  \<open>k \<ge> 0\<close>, so \<open>x\<close> is a natural number.
\<close>

function mult_loop :: "nat \<Rightarrow> block \<Rightarrow> block \<Rightarrow> block" where
  "mult_loop x t r =
     (if x \<noteq> 0
      then mult_loop (x div 2) (double_block t) (if x AND 1 \<noteq> 0 then xor_bytes1x16 r t else r)
      else r)"
  by pat_completeness auto
termination
  by (relation "measure (\<lambda>(x, t, r). x)") auto

definition mult_block :: "nat \<Rightarrow> bytes \<Rightarrow> block" where
  "mult_block x src = mult_loop x src (mk_block BLOCK_SIZE)"

text \<open>
  \<^verbatim>\<open>_one_zero_pad(src, size, dst)\<close>, returning the new \<open>dst\<close>. At every call \<open>dst\<close> is a
  fresh block, \<open>size < 16\<close> and \<open>src\<close> has at least \<open>size\<close> bytes (\<open>n\<close> is the source's \<open>size\<close>).
\<close>

definition one_zero_pad :: "bytes \<Rightarrow> nat \<Rightarrow> bytes \<Rightarrow> bytes" where
  "one_zero_pad src n dst =
     (let d0 = replicate (length dst) 0;
          d1 = (if n \<noteq> 0 then slice_assign d0 0 n (py_slice src 0 n) else d0)
      in d1[n := 0x80])"

section \<open>The AES round function\<close>

definition TE0 :: "32 word list" where
  "TE0 =
    [0xC66363A5, 0xF87C7C84, 0xEE777799, 0xF67B7B8D, 0xFFF2F20D, 0xD66B6BBD, 0xDE6F6FB1, 0x91C5C554,
     0x60303050, 0x02010103, 0xCE6767A9, 0x562B2B7D, 0xE7FEFE19, 0xB5D7D762, 0x4DABABE6, 0xEC76769A,
     0x8FCACA45, 0x1F82829D, 0x89C9C940, 0xFA7D7D87, 0xEFFAFA15, 0xB25959EB, 0x8E4747C9, 0xFBF0F00B,
     0x41ADADEC, 0xB3D4D467, 0x5FA2A2FD, 0x45AFAFEA, 0x239C9CBF, 0x53A4A4F7, 0xE4727296, 0x9BC0C05B,
     0x75B7B7C2, 0xE1FDFD1C, 0x3D9393AE, 0x4C26266A, 0x6C36365A, 0x7E3F3F41, 0xF5F7F702, 0x83CCCC4F,
     0x6834345C, 0x51A5A5F4, 0xD1E5E534, 0xF9F1F108, 0xE2717193, 0xABD8D873, 0x62313153, 0x2A15153F,
     0x0804040C, 0x95C7C752, 0x46232365, 0x9DC3C35E, 0x30181828, 0x379696A1, 0x0A05050F, 0x2F9A9AB5,
     0x0E070709, 0x24121236, 0x1B80809B, 0xDFE2E23D, 0xCDEBEB26, 0x4E272769, 0x7FB2B2CD, 0xEA75759F,
     0x1209091B, 0x1D83839E, 0x582C2C74, 0x341A1A2E, 0x361B1B2D, 0xDC6E6EB2, 0xB45A5AEE, 0x5BA0A0FB,
     0xA45252F6, 0x763B3B4D, 0xB7D6D661, 0x7DB3B3CE, 0x5229297B, 0xDDE3E33E, 0x5E2F2F71, 0x13848497,
     0xA65353F5, 0xB9D1D168, 0x00000000, 0xC1EDED2C, 0x40202060, 0xE3FCFC1F, 0x79B1B1C8, 0xB65B5BED,
     0xD46A6ABE, 0x8DCBCB46, 0x67BEBED9, 0x7239394B, 0x944A4ADE, 0x984C4CD4, 0xB05858E8, 0x85CFCF4A,
     0xBBD0D06B, 0xC5EFEF2A, 0x4FAAAAE5, 0xEDFBFB16, 0x864343C5, 0x9A4D4DD7, 0x66333355, 0x11858594,
     0x8A4545CF, 0xE9F9F910, 0x04020206, 0xFE7F7F81, 0xA05050F0, 0x783C3C44, 0x259F9FBA, 0x4BA8A8E3,
     0xA25151F3, 0x5DA3A3FE, 0x804040C0, 0x058F8F8A, 0x3F9292AD, 0x219D9DBC, 0x70383848, 0xF1F5F504,
     0x63BCBCDF, 0x77B6B6C1, 0xAFDADA75, 0x42212163, 0x20101030, 0xE5FFFF1A, 0xFDF3F30E, 0xBFD2D26D,
     0x81CDCD4C, 0x180C0C14, 0x26131335, 0xC3ECEC2F, 0xBE5F5FE1, 0x359797A2, 0x884444CC, 0x2E171739,
     0x93C4C457, 0x55A7A7F2, 0xFC7E7E82, 0x7A3D3D47, 0xC86464AC, 0xBA5D5DE7, 0x3219192B, 0xE6737395,
     0xC06060A0, 0x19818198, 0x9E4F4FD1, 0xA3DCDC7F, 0x44222266, 0x542A2A7E, 0x3B9090AB, 0x0B888883,
     0x8C4646CA, 0xC7EEEE29, 0x6BB8B8D3, 0x2814143C, 0xA7DEDE79, 0xBC5E5EE2, 0x160B0B1D, 0xADDBDB76,
     0xDBE0E03B, 0x64323256, 0x743A3A4E, 0x140A0A1E, 0x924949DB, 0x0C06060A, 0x4824246C, 0xB85C5CE4,
     0x9FC2C25D, 0xBDD3D36E, 0x43ACACEF, 0xC46262A6, 0x399191A8, 0x319595A4, 0xD3E4E437, 0xF279798B,
     0xD5E7E732, 0x8BC8C843, 0x6E373759, 0xDA6D6DB7, 0x018D8D8C, 0xB1D5D564, 0x9C4E4ED2, 0x49A9A9E0,
     0xD86C6CB4, 0xAC5656FA, 0xF3F4F407, 0xCFEAEA25, 0xCA6565AF, 0xF47A7A8E, 0x47AEAEE9, 0x10080818,
     0x6FBABAD5, 0xF0787888, 0x4A25256F, 0x5C2E2E72, 0x381C1C24, 0x57A6A6F1, 0x73B4B4C7, 0x97C6C651,
     0xCBE8E823, 0xA1DDDD7C, 0xE874749C, 0x3E1F1F21, 0x964B4BDD, 0x61BDBDDC, 0x0D8B8B86, 0x0F8A8A85,
     0xE0707090, 0x7C3E3E42, 0x71B5B5C4, 0xCC6666AA, 0x904848D8, 0x06030305, 0xF7F6F601, 0x1C0E0E12,
     0xC26161A3, 0x6A35355F, 0xAE5757F9, 0x69B9B9D0, 0x17868691, 0x99C1C158, 0x3A1D1D27, 0x279E9EB9,
     0xD9E1E138, 0xEBF8F813, 0x2B9898B3, 0x22111133, 0xD26969BB, 0xA9D9D970, 0x078E8E89, 0x339494A7,
     0x2D9B9BB6, 0x3C1E1E22, 0x15878792, 0xC9E9E920, 0x87CECE49, 0xAA5555FF, 0x50282878, 0xA5DFDF7A,
     0x038C8C8F, 0x59A1A1F8, 0x09898980, 0x1A0D0D17, 0x65BFBFDA, 0xD7E6E631, 0x844242C6, 0xD06868B8,
     0x824141C3, 0x299999B0, 0x5A2D2D77, 0x1E0F0F11, 0x7BB0B0CB, 0xA85454FC, 0x6DBBBBD6, 0x2C16163A]"

definition TE1 :: "32 word list" where
  "TE1 =
    [0xA5C66363, 0x84F87C7C, 0x99EE7777, 0x8DF67B7B, 0x0DFFF2F2, 0xBDD66B6B, 0xB1DE6F6F, 0x5491C5C5,
     0x50603030, 0x03020101, 0xA9CE6767, 0x7D562B2B, 0x19E7FEFE, 0x62B5D7D7, 0xE64DABAB, 0x9AEC7676,
     0x458FCACA, 0x9D1F8282, 0x4089C9C9, 0x87FA7D7D, 0x15EFFAFA, 0xEBB25959, 0xC98E4747, 0x0BFBF0F0,
     0xEC41ADAD, 0x67B3D4D4, 0xFD5FA2A2, 0xEA45AFAF, 0xBF239C9C, 0xF753A4A4, 0x96E47272, 0x5B9BC0C0,
     0xC275B7B7, 0x1CE1FDFD, 0xAE3D9393, 0x6A4C2626, 0x5A6C3636, 0x417E3F3F, 0x02F5F7F7, 0x4F83CCCC,
     0x5C683434, 0xF451A5A5, 0x34D1E5E5, 0x08F9F1F1, 0x93E27171, 0x73ABD8D8, 0x53623131, 0x3F2A1515,
     0x0C080404, 0x5295C7C7, 0x65462323, 0x5E9DC3C3, 0x28301818, 0xA1379696, 0x0F0A0505, 0xB52F9A9A,
     0x090E0707, 0x36241212, 0x9B1B8080, 0x3DDFE2E2, 0x26CDEBEB, 0x694E2727, 0xCD7FB2B2, 0x9FEA7575,
     0x1B120909, 0x9E1D8383, 0x74582C2C, 0x2E341A1A, 0x2D361B1B, 0xB2DC6E6E, 0xEEB45A5A, 0xFB5BA0A0,
     0xF6A45252, 0x4D763B3B, 0x61B7D6D6, 0xCE7DB3B3, 0x7B522929, 0x3EDDE3E3, 0x715E2F2F, 0x97138484,
     0xF5A65353, 0x68B9D1D1, 0x00000000, 0x2CC1EDED, 0x60402020, 0x1FE3FCFC, 0xC879B1B1, 0xEDB65B5B,
     0xBED46A6A, 0x468DCBCB, 0xD967BEBE, 0x4B723939, 0xDE944A4A, 0xD4984C4C, 0xE8B05858, 0x4A85CFCF,
     0x6BBBD0D0, 0x2AC5EFEF, 0xE54FAAAA, 0x16EDFBFB, 0xC5864343, 0xD79A4D4D, 0x55663333, 0x94118585,
     0xCF8A4545, 0x10E9F9F9, 0x06040202, 0x81FE7F7F, 0xF0A05050, 0x44783C3C, 0xBA259F9F, 0xE34BA8A8,
     0xF3A25151, 0xFE5DA3A3, 0xC0804040, 0x8A058F8F, 0xAD3F9292, 0xBC219D9D, 0x48703838, 0x04F1F5F5,
     0xDF63BCBC, 0xC177B6B6, 0x75AFDADA, 0x63422121, 0x30201010, 0x1AE5FFFF, 0x0EFDF3F3, 0x6DBFD2D2,
     0x4C81CDCD, 0x14180C0C, 0x35261313, 0x2FC3ECEC, 0xE1BE5F5F, 0xA2359797, 0xCC884444, 0x392E1717,
     0x5793C4C4, 0xF255A7A7, 0x82FC7E7E, 0x477A3D3D, 0xACC86464, 0xE7BA5D5D, 0x2B321919, 0x95E67373,
     0xA0C06060, 0x98198181, 0xD19E4F4F, 0x7FA3DCDC, 0x66442222, 0x7E542A2A, 0xAB3B9090, 0x830B8888,
     0xCA8C4646, 0x29C7EEEE, 0xD36BB8B8, 0x3C281414, 0x79A7DEDE, 0xE2BC5E5E, 0x1D160B0B, 0x76ADDBDB,
     0x3BDBE0E0, 0x56643232, 0x4E743A3A, 0x1E140A0A, 0xDB924949, 0x0A0C0606, 0x6C482424, 0xE4B85C5C,
     0x5D9FC2C2, 0x6EBDD3D3, 0xEF43ACAC, 0xA6C46262, 0xA8399191, 0xA4319595, 0x37D3E4E4, 0x8BF27979,
     0x32D5E7E7, 0x438BC8C8, 0x596E3737, 0xB7DA6D6D, 0x8C018D8D, 0x64B1D5D5, 0xD29C4E4E, 0xE049A9A9,
     0xB4D86C6C, 0xFAAC5656, 0x07F3F4F4, 0x25CFEAEA, 0xAFCA6565, 0x8EF47A7A, 0xE947AEAE, 0x18100808,
     0xD56FBABA, 0x88F07878, 0x6F4A2525, 0x725C2E2E, 0x24381C1C, 0xF157A6A6, 0xC773B4B4, 0x5197C6C6,
     0x23CBE8E8, 0x7CA1DDDD, 0x9CE87474, 0x213E1F1F, 0xDD964B4B, 0xDC61BDBD, 0x860D8B8B, 0x850F8A8A,
     0x90E07070, 0x427C3E3E, 0xC471B5B5, 0xAACC6666, 0xD8904848, 0x05060303, 0x01F7F6F6, 0x121C0E0E,
     0xA3C26161, 0x5F6A3535, 0xF9AE5757, 0xD069B9B9, 0x91178686, 0x5899C1C1, 0x273A1D1D, 0xB9279E9E,
     0x38D9E1E1, 0x13EBF8F8, 0xB32B9898, 0x33221111, 0xBBD26969, 0x70A9D9D9, 0x89078E8E, 0xA7339494,
     0xB62D9B9B, 0x223C1E1E, 0x92158787, 0x20C9E9E9, 0x4987CECE, 0xFFAA5555, 0x78502828, 0x7AA5DFDF,
     0x8F038C8C, 0xF859A1A1, 0x80098989, 0x171A0D0D, 0xDA65BFBF, 0x31D7E6E6, 0xC6844242, 0xB8D06868,
     0xC3824141, 0xB0299999, 0x775A2D2D, 0x111E0F0F, 0xCB7BB0B0, 0xFCA85454, 0xD66DBBBB, 0x3A2C1616]"

definition TE2 :: "32 word list" where
  "TE2 =
    [0x63A5C663, 0x7C84F87C, 0x7799EE77, 0x7B8DF67B, 0xF20DFFF2, 0x6BBDD66B, 0x6FB1DE6F, 0xC55491C5,
     0x30506030, 0x01030201, 0x67A9CE67, 0x2B7D562B, 0xFE19E7FE, 0xD762B5D7, 0xABE64DAB, 0x769AEC76,
     0xCA458FCA, 0x829D1F82, 0xC94089C9, 0x7D87FA7D, 0xFA15EFFA, 0x59EBB259, 0x47C98E47, 0xF00BFBF0,
     0xADEC41AD, 0xD467B3D4, 0xA2FD5FA2, 0xAFEA45AF, 0x9CBF239C, 0xA4F753A4, 0x7296E472, 0xC05B9BC0,
     0xB7C275B7, 0xFD1CE1FD, 0x93AE3D93, 0x266A4C26, 0x365A6C36, 0x3F417E3F, 0xF702F5F7, 0xCC4F83CC,
     0x345C6834, 0xA5F451A5, 0xE534D1E5, 0xF108F9F1, 0x7193E271, 0xD873ABD8, 0x31536231, 0x153F2A15,
     0x040C0804, 0xC75295C7, 0x23654623, 0xC35E9DC3, 0x18283018, 0x96A13796, 0x050F0A05, 0x9AB52F9A,
     0x07090E07, 0x12362412, 0x809B1B80, 0xE23DDFE2, 0xEB26CDEB, 0x27694E27, 0xB2CD7FB2, 0x759FEA75,
     0x091B1209, 0x839E1D83, 0x2C74582C, 0x1A2E341A, 0x1B2D361B, 0x6EB2DC6E, 0x5AEEB45A, 0xA0FB5BA0,
     0x52F6A452, 0x3B4D763B, 0xD661B7D6, 0xB3CE7DB3, 0x297B5229, 0xE33EDDE3, 0x2F715E2F, 0x84971384,
     0x53F5A653, 0xD168B9D1, 0x00000000, 0xED2CC1ED, 0x20604020, 0xFC1FE3FC, 0xB1C879B1, 0x5BEDB65B,
     0x6ABED46A, 0xCB468DCB, 0xBED967BE, 0x394B7239, 0x4ADE944A, 0x4CD4984C, 0x58E8B058, 0xCF4A85CF,
     0xD06BBBD0, 0xEF2AC5EF, 0xAAE54FAA, 0xFB16EDFB, 0x43C58643, 0x4DD79A4D, 0x33556633, 0x85941185,
     0x45CF8A45, 0xF910E9F9, 0x02060402, 0x7F81FE7F, 0x50F0A050, 0x3C44783C, 0x9FBA259F, 0xA8E34BA8,
     0x51F3A251, 0xA3FE5DA3, 0x40C08040, 0x8F8A058F, 0x92AD3F92, 0x9DBC219D, 0x38487038, 0xF504F1F5,
     0xBCDF63BC, 0xB6C177B6, 0xDA75AFDA, 0x21634221, 0x10302010, 0xFF1AE5FF, 0xF30EFDF3, 0xD26DBFD2,
     0xCD4C81CD, 0x0C14180C, 0x13352613, 0xEC2FC3EC, 0x5FE1BE5F, 0x97A23597, 0x44CC8844, 0x17392E17,
     0xC45793C4, 0xA7F255A7, 0x7E82FC7E, 0x3D477A3D, 0x64ACC864, 0x5DE7BA5D, 0x192B3219, 0x7395E673,
     0x60A0C060, 0x81981981, 0x4FD19E4F, 0xDC7FA3DC, 0x22664422, 0x2A7E542A, 0x90AB3B90, 0x88830B88,
     0x46CA8C46, 0xEE29C7EE, 0xB8D36BB8, 0x143C2814, 0xDE79A7DE, 0x5EE2BC5E, 0x0B1D160B, 0xDB76ADDB,
     0xE03BDBE0, 0x32566432, 0x3A4E743A, 0x0A1E140A, 0x49DB9249, 0x060A0C06, 0x246C4824, 0x5CE4B85C,
     0xC25D9FC2, 0xD36EBDD3, 0xACEF43AC, 0x62A6C462, 0x91A83991, 0x95A43195, 0xE437D3E4, 0x798BF279,
     0xE732D5E7, 0xC8438BC8, 0x37596E37, 0x6DB7DA6D, 0x8D8C018D, 0xD564B1D5, 0x4ED29C4E, 0xA9E049A9,
     0x6CB4D86C, 0x56FAAC56, 0xF407F3F4, 0xEA25CFEA, 0x65AFCA65, 0x7A8EF47A, 0xAEE947AE, 0x08181008,
     0xBAD56FBA, 0x7888F078, 0x256F4A25, 0x2E725C2E, 0x1C24381C, 0xA6F157A6, 0xB4C773B4, 0xC65197C6,
     0xE823CBE8, 0xDD7CA1DD, 0x749CE874, 0x1F213E1F, 0x4BDD964B, 0xBDDC61BD, 0x8B860D8B, 0x8A850F8A,
     0x7090E070, 0x3E427C3E, 0xB5C471B5, 0x66AACC66, 0x48D89048, 0x03050603, 0xF601F7F6, 0x0E121C0E,
     0x61A3C261, 0x355F6A35, 0x57F9AE57, 0xB9D069B9, 0x86911786, 0xC15899C1, 0x1D273A1D, 0x9EB9279E,
     0xE138D9E1, 0xF813EBF8, 0x98B32B98, 0x11332211, 0x69BBD269, 0xD970A9D9, 0x8E89078E, 0x94A73394,
     0x9BB62D9B, 0x1E223C1E, 0x87921587, 0xE920C9E9, 0xCE4987CE, 0x55FFAA55, 0x28785028, 0xDF7AA5DF,
     0x8C8F038C, 0xA1F859A1, 0x89800989, 0x0D171A0D, 0xBFDA65BF, 0xE631D7E6, 0x42C68442, 0x68B8D068,
     0x41C38241, 0x99B02999, 0x2D775A2D, 0x0F111E0F, 0xB0CB7BB0, 0x54FCA854, 0xBBD66DBB, 0x163A2C16]"

definition TE3 :: "32 word list" where
  "TE3 =
    [0x6363A5C6, 0x7C7C84F8, 0x777799EE, 0x7B7B8DF6, 0xF2F20DFF, 0x6B6BBDD6, 0x6F6FB1DE, 0xC5C55491,
     0x30305060, 0x01010302, 0x6767A9CE, 0x2B2B7D56, 0xFEFE19E7, 0xD7D762B5, 0xABABE64D, 0x76769AEC,
     0xCACA458F, 0x82829D1F, 0xC9C94089, 0x7D7D87FA, 0xFAFA15EF, 0x5959EBB2, 0x4747C98E, 0xF0F00BFB,
     0xADADEC41, 0xD4D467B3, 0xA2A2FD5F, 0xAFAFEA45, 0x9C9CBF23, 0xA4A4F753, 0x727296E4, 0xC0C05B9B,
     0xB7B7C275, 0xFDFD1CE1, 0x9393AE3D, 0x26266A4C, 0x36365A6C, 0x3F3F417E, 0xF7F702F5, 0xCCCC4F83,
     0x34345C68, 0xA5A5F451, 0xE5E534D1, 0xF1F108F9, 0x717193E2, 0xD8D873AB, 0x31315362, 0x15153F2A,
     0x04040C08, 0xC7C75295, 0x23236546, 0xC3C35E9D, 0x18182830, 0x9696A137, 0x05050F0A, 0x9A9AB52F,
     0x0707090E, 0x12123624, 0x80809B1B, 0xE2E23DDF, 0xEBEB26CD, 0x2727694E, 0xB2B2CD7F, 0x75759FEA,
     0x09091B12, 0x83839E1D, 0x2C2C7458, 0x1A1A2E34, 0x1B1B2D36, 0x6E6EB2DC, 0x5A5AEEB4, 0xA0A0FB5B,
     0x5252F6A4, 0x3B3B4D76, 0xD6D661B7, 0xB3B3CE7D, 0x29297B52, 0xE3E33EDD, 0x2F2F715E, 0x84849713,
     0x5353F5A6, 0xD1D168B9, 0x00000000, 0xEDED2CC1, 0x20206040, 0xFCFC1FE3, 0xB1B1C879, 0x5B5BEDB6,
     0x6A6ABED4, 0xCBCB468D, 0xBEBED967, 0x39394B72, 0x4A4ADE94, 0x4C4CD498, 0x5858E8B0, 0xCFCF4A85,
     0xD0D06BBB, 0xEFEF2AC5, 0xAAAAE54F, 0xFBFB16ED, 0x4343C586, 0x4D4DD79A, 0x33335566, 0x85859411,
     0x4545CF8A, 0xF9F910E9, 0x02020604, 0x7F7F81FE, 0x5050F0A0, 0x3C3C4478, 0x9F9FBA25, 0xA8A8E34B,
     0x5151F3A2, 0xA3A3FE5D, 0x4040C080, 0x8F8F8A05, 0x9292AD3F, 0x9D9DBC21, 0x38384870, 0xF5F504F1,
     0xBCBCDF63, 0xB6B6C177, 0xDADA75AF, 0x21216342, 0x10103020, 0xFFFF1AE5, 0xF3F30EFD, 0xD2D26DBF,
     0xCDCD4C81, 0x0C0C1418, 0x13133526, 0xECEC2FC3, 0x5F5FE1BE, 0x9797A235, 0x4444CC88, 0x1717392E,
     0xC4C45793, 0xA7A7F255, 0x7E7E82FC, 0x3D3D477A, 0x6464ACC8, 0x5D5DE7BA, 0x19192B32, 0x737395E6,
     0x6060A0C0, 0x81819819, 0x4F4FD19E, 0xDCDC7FA3, 0x22226644, 0x2A2A7E54, 0x9090AB3B, 0x8888830B,
     0x4646CA8C, 0xEEEE29C7, 0xB8B8D36B, 0x14143C28, 0xDEDE79A7, 0x5E5EE2BC, 0x0B0B1D16, 0xDBDB76AD,
     0xE0E03BDB, 0x32325664, 0x3A3A4E74, 0x0A0A1E14, 0x4949DB92, 0x06060A0C, 0x24246C48, 0x5C5CE4B8,
     0xC2C25D9F, 0xD3D36EBD, 0xACACEF43, 0x6262A6C4, 0x9191A839, 0x9595A431, 0xE4E437D3, 0x79798BF2,
     0xE7E732D5, 0xC8C8438B, 0x3737596E, 0x6D6DB7DA, 0x8D8D8C01, 0xD5D564B1, 0x4E4ED29C, 0xA9A9E049,
     0x6C6CB4D8, 0x5656FAAC, 0xF4F407F3, 0xEAEA25CF, 0x6565AFCA, 0x7A7A8EF4, 0xAEAEE947, 0x08081810,
     0xBABAD56F, 0x787888F0, 0x25256F4A, 0x2E2E725C, 0x1C1C2438, 0xA6A6F157, 0xB4B4C773, 0xC6C65197,
     0xE8E823CB, 0xDDDD7CA1, 0x74749CE8, 0x1F1F213E, 0x4B4BDD96, 0xBDBDDC61, 0x8B8B860D, 0x8A8A850F,
     0x707090E0, 0x3E3E427C, 0xB5B5C471, 0x6666AACC, 0x4848D890, 0x03030506, 0xF6F601F7, 0x0E0E121C,
     0x6161A3C2, 0x35355F6A, 0x5757F9AE, 0xB9B9D069, 0x86869117, 0xC1C15899, 0x1D1D273A, 0x9E9EB927,
     0xE1E138D9, 0xF8F813EB, 0x9898B32B, 0x11113322, 0x6969BBD2, 0xD9D970A9, 0x8E8E8907, 0x9494A733,
     0x9B9BB62D, 0x1E1E223C, 0x87879215, 0xE9E920C9, 0xCECE4987, 0x5555FFAA, 0x28287850, 0xDFDF7AA5,
     0x8C8C8F03, 0xA1A1F859, 0x89898009, 0x0D0D171A, 0xBFBFDA65, 0xE6E631D7, 0x4242C684, 0x6868B8D0,
     0x4141C382, 0x9999B029, 0x2D2D775A, 0x0F0F111E, 0xB0B0CB7B, 0x5454FCA8, 0xBBBBD66D, 0x16163A2C]"

definition read_uint32_be :: "bytes \<Rightarrow> nat \<Rightarrow> 32 word" where
  "read_uint32_be block offset = word_of_int (from_bytes_be (py_slice block offset (offset + 4)))"

definition write_uint32_be :: "bytes \<Rightarrow> nat \<Rightarrow> 32 word \<Rightarrow> bytes" where
  "write_uint32_be block offset v = slice_assign block offset (offset + 4) (to_bytes_be4 v)"

record AESRound =
  aes10_key :: "32 word list"
  aes4_key :: "32 word list"

text \<open>\<^verbatim>\<open>_AESRound.__init__\<close>: the last four words of the 4-round schedule stay zero.\<close>

definition AESRound_init :: "bytes \<Rightarrow> AESRound" where
  "AESRound_init key =
     (let words = map (\<lambda>i. read_uint32_be key (4 * i)) [0..<12];
          k10 = replicate (4 * 10) 0;
          k4 = replicate (4 * 4) 0;
          k10 = slice_assign k10 0 12 words;
          k10 = slice_assign k10 12 24 words;
          k10 = slice_assign k10 24 36 words;
          k10 = slice_assign k10 36 40 (py_slice words 0 4);
          k4 = slice_assign k4 0 4 (py_slice words 4 8);
          k4 = slice_assign k4 4 8 (py_slice words 0 4);
          k4 = slice_assign k4 8 12 (py_slice words 8 12)
      in \<lparr>aes10_key = k10, aes4_key = k4\<rparr>)"

definition AESRound_reset :: "AESRound \<Rightarrow> AESRound" where
  "AESRound_reset a =
     \<lparr>aes10_key = map (\<lambda>_. 0) (aes10_key a), aes4_key = map (\<lambda>_. 0) (aes4_key a)\<rparr>"

text \<open>One pass of the loop of \<^verbatim>\<open>_AESRound.rounds\<close>, for round \<open>r\<close>.\<close>

definition aes_round_step ::
  "32 word list \<Rightarrow> nat \<Rightarrow> 32 word \<times> 32 word \<times> 32 word \<times> 32 word
     \<Rightarrow> 32 word \<times> 32 word \<times> 32 word \<times> 32 word" where
  "aes_round_step keys r s =
     (case s of (s0, s1, s2, s3) \<Rightarrow>
        let rk_off = r * 4;
            t0 = TE0 ! uint8 (drop_bit 24 s0) XOR TE1 ! uint8 (drop_bit 16 s1)
                 XOR TE2 ! uint8 (drop_bit 8 s2) XOR TE3 ! uint8 s3 XOR keys ! rk_off;
            t1 = TE0 ! uint8 (drop_bit 24 s1) XOR TE1 ! uint8 (drop_bit 16 s2)
                 XOR TE2 ! uint8 (drop_bit 8 s3) XOR TE3 ! uint8 s0 XOR keys ! (rk_off + 1);
            t2 = TE0 ! uint8 (drop_bit 24 s2) XOR TE1 ! uint8 (drop_bit 16 s3)
                 XOR TE2 ! uint8 (drop_bit 8 s0) XOR TE3 ! uint8 s1 XOR keys ! (rk_off + 2);
            t3 = TE0 ! uint8 (drop_bit 24 s3) XOR TE1 ! uint8 (drop_bit 16 s0)
                 XOR TE2 ! uint8 (drop_bit 8 s1) XOR TE3 ! uint8 s2 XOR keys ! (rk_off + 3)
        in (t0, t1, t2, t3))"

text \<open>
  \<^verbatim>\<open>_AESRound.rounds(block, rounds)\<close>, returning the new block. It is called with 4 and
  10 rounds on 16-byte blocks; the schedules hold 16 and 40 words.
\<close>

definition rounds :: "AESRound \<Rightarrow> block \<Rightarrow> nat \<Rightarrow> block" where
  "rounds a block n =
     (let keys = (if n = 4 then aes4_key a else aes10_key a);
          s = (read_uint32_be block 0, read_uint32_be block 4,
               read_uint32_be block 8, read_uint32_be block 12);
          s = foldl (\<lambda>s r. aes_round_step keys r s) s [0..<n]
      in case s of (s0, s1, s2, s3) \<Rightarrow>
           write_uint32_be (write_uint32_be (write_uint32_be (write_uint32_be block 0 s0) 4 s1) 8 s2)
             12 s3)"

definition AES4 :: "AESRound \<Rightarrow> block \<Rightarrow> block \<Rightarrow> block \<Rightarrow> bytes \<Rightarrow> block" where
  "AES4 a j i_vec l_vec src = rounds a (xor_bytes4x16 j i_vec l_vec src) 4"

definition AES10 :: "AESRound \<Rightarrow> block \<Rightarrow> bytes \<Rightarrow> block" where
  "AES10 a l_vec src = rounds a (xor_bytes1x16 src l_vec) 10"

section \<open>The AEZ state and its key schedule\<close>

record AEZState =
  I :: "block list"
  J :: "block list"
  L :: "block list"
  aes :: "AESRound option"

text \<open>\<^verbatim>\<open>_AEZState.__init__\<close>.\<close>

definition AEZState_new :: AEZState where
  "AEZState_new =
     \<lparr>I = [mk_block BLOCK_SIZE, mk_block BLOCK_SIZE],
      J = [mk_block BLOCK_SIZE, mk_block BLOCK_SIZE, mk_block BLOCK_SIZE],
      L = map (\<lambda>_. mk_block BLOCK_SIZE) [0..<8],
      aes = None\<rparr>"

text \<open>\<^verbatim>\<open>_AEZState.reset\<close>: every byte of every buffer becomes zero.\<close>

definition reset :: "AEZState \<Rightarrow> AEZState" where
  "reset st =
     \<lparr>I = map (map (\<lambda>_. 0)) (I st),
      J = map (map (\<lambda>_. 0)) (J st),
      L = map (map (\<lambda>_. 0)) (L st),
      aes = map_option AESRound_reset (aes st)\<rparr>"

text \<open>
  \<^verbatim>\<open>_AEZState.init(key)\<close>: the statements in the source's order, each one writing one
  buffer of the state. \<open>L[0]\<close> is not written.
\<close>

definition init :: "(bytes \<Rightarrow> bytes) \<Rightarrow> bytes \<Rightarrow> AEZState \<Rightarrow> AEZState" where
  "init blake2b key st =
     (let extracted = extract_key blake2b key;
          Is = (I st)[0 := py_slice extracted 0 16];
          Is = Is[1 := mult_block 2 (Is ! 0)];
          Js = (J st)[0 := py_slice extracted 16 32];
          Js = Js[1 := mult_block 2 (Js ! 0)];
          Js = Js[2 := mult_block 2 (Js ! 1)];
          Ls = (L st)[1 := py_slice extracted 32 48];
          Ls = Ls[2 := mult_block 2 (Ls ! 1)];
          Ls = Ls[3 := xor_bytes1x16 (Ls ! 2) (Ls ! 1)];
          Ls = Ls[4 := mult_block 2 (Ls ! 2)];
          Ls = Ls[5 := xor_bytes1x16 (Ls ! 4) (Ls ! 1)];
          Ls = Ls[6 := mult_block 2 (Ls ! 3)];
          Ls = Ls[7 := xor_bytes1x16 (Ls ! 6) (Ls ! 1)]
      in \<lparr>I = Is, J = Js, L = Ls, aes = Some (AESRound_init extracted)\<rparr>)"

text \<open>
  The states the module can build: a fresh object, and whatever \<^verbatim>\<open>reset\<close> and
  \<^verbatim>\<open>init\<close> make of one. No other method writes \<open>I\<close>, \<open>J\<close> or \<open>L\<close>.
\<close>

inductive reachable :: "(bytes \<Rightarrow> bytes) \<Rightarrow> AEZState \<Rightarrow> bool" for blake2b where
  reachable_new: "reachable blake2b AEZState_new"
| reachable_reset: "reachable blake2b st \<Longrightarrow> reachable blake2b (reset st)"
| reachable_init: "reachable blake2b st \<Longrightarrow> reachable blake2b (init blake2b key st)"

text \<open>The shape every such state has: two, three and eight buffers, the first \<open>L\<close> zero.\<close>

definition wf_state :: "AEZState \<Rightarrow> bool" where
  "wf_state st \<longleftrightarrow>
     length (I st) = 2 \<and> length (J st) = 3 \<and> length (L st) = 8 \<and> L st ! 0 = ZERO_BLOCK"


section \<open>AEZ-hash and AEZ-PRF\<close>

text \<open>
  The block walk of \<^verbatim>\<open>aez_hash\<close> over one string. The source writes it twice with the
  same statements, once for the nonce with \<open>J[2]\<close> and once for each piece of associated
  data with \<open>mult(5 + k, J[0])\<close>: \<open>Jb\<close> is that block. \<open>absorb_loop\<close> is the
  \<^verbatim>\<open>while\<close> loop and returns the variables read after it; \<open>absorb_final\<close> is the
  \<^verbatim>\<open>if\<close> that pads the rest, where \<open>is_empty\<close> is \<^verbatim>\<open>not nonce\<close> or \<^verbatim>\<open>not piece\<close>.
\<close>

function absorb_loop ::
  "AESRound \<Rightarrow> AEZState \<Rightarrow> block \<Rightarrow> bytes \<Rightarrow> nat \<Rightarrow> nat \<Rightarrow> nat \<Rightarrow> block \<Rightarrow> block
     \<Rightarrow> nat \<times> nat \<times> block" where
  "absorb_loop a st Jb data offset n_bytes i I_tmp sum_block =
     (if BLOCK_SIZE \<le> n_bytes
      then let tmp = slice_assign (mk_block BLOCK_SIZE) 0 BLOCK_SIZE
                       (py_slice data offset (offset + BLOCK_SIZE));
               buf = AES4 a Jb I_tmp (L st ! (i mod 8)) tmp;
               sum_block = xor_bytes1x16 sum_block buf;
               I_tmp = (if i mod 8 = 0 then double_block I_tmp else I_tmp)
           in absorb_loop a st Jb data (offset + BLOCK_SIZE) (n_bytes - BLOCK_SIZE) (i + 1)
                I_tmp sum_block
      else (offset, n_bytes, sum_block))"
  by pat_completeness auto
termination
  by (relation "measure (\<lambda>(a, st, Jb, data, offset, n_bytes, i, I_tmp, sum_block). n_bytes)")
     (auto simp: BLOCK_SIZE_def)

definition absorb_final ::
  "AESRound \<Rightarrow> AEZState \<Rightarrow> block \<Rightarrow> bytes \<Rightarrow> bool \<Rightarrow> nat \<Rightarrow> nat \<Rightarrow> block \<Rightarrow> block" where
  "absorb_final a st Jb data is_empty offset n_bytes sum_block =
     (if 0 < n_bytes \<or> is_empty
      then let buf = replicate BLOCK_SIZE 0;
               buf = (if \<not> is_empty
                      then slice_assign buf 0 n_bytes (py_slice data offset (offset + n_bytes))
                      else buf);
               buf = buf[n_bytes := 0x80];
               buf = AES4 a Jb (I st ! 0) (L st ! 0) buf
           in xor_bytes1x16 sum_block buf
      else sum_block)"

definition absorb :: "AESRound \<Rightarrow> AEZState \<Rightarrow> block \<Rightarrow> bytes \<Rightarrow> block \<Rightarrow> block" where
  "absorb a st Jb data sum_block =
     (case absorb_loop a st Jb data 0 (length data) 1 (I st ! 1) sum_block of
        (offset, n_bytes, sum_block) \<Rightarrow>
          absorb_final a st Jb data (data = []) offset n_bytes sum_block)"

text \<open>
  \<^verbatim>\<open>aez_hash(nonce, ad, tau)\<close>, with \<open>tau\<close> in bits. A nonce that is \<^verbatim>\<open>None\<close> is walked
  as the empty string. The pieces of \<open>ad\<close> are numbered from 0.
\<close>

definition aez_hash :: "AEZState \<Rightarrow> bytes option \<Rightarrow> bytes list \<Rightarrow> nat \<Rightarrow> error + block" where
  "aez_hash st nonce ad tau =
     (case aes st of
        None \<Rightarrow> Inl AssertionError
      | Some a \<Rightarrow>
          let buf = mk_block BLOCK_SIZE;
              buf = slice_assign buf 12 16 (to_bytes_be4 (uint32 (int tau)));
              J_tmp = xor_bytes1x16 (J st ! 0) (J st ! 1);
              sum_block = AES4 a J_tmp (I st ! 1) (L st ! 1) buf;
              sum_block = absorb a st (J st ! 2) (case nonce of None \<Rightarrow> [] | Some n \<Rightarrow> n) sum_block
          in Inr (foldl (\<lambda>sum_block (k, piece).
                           absorb a st (mult_block (5 + k) (J st ! 0)) piece sum_block)
                    sum_block (zip [0..<length ad] ad)))"

text \<open>
  The counter of \<^verbatim>\<open>aez_prf\<close>: the \<^verbatim>\<open>for idx in range(15, -1, -1)\<close> loop, from index
  \<open>idx\<close> down, which stops at the first byte that does not wrap to zero.
\<close>

fun ctr_increment :: "block \<Rightarrow> nat \<Rightarrow> block" where
  "ctr_increment ctr 0 = ctr[0 := ctr ! 0 + 1]"
| "ctr_increment ctr (Suc idx) =
     (let ctr = ctr[Suc idx := ctr ! Suc idx + 1]
      in if ctr ! Suc idx \<noteq> 0 then ctr else ctr_increment ctr idx)"

function prf_loop ::
  "AESRound \<Rightarrow> AEZState \<Rightarrow> block \<Rightarrow> block \<Rightarrow> nat \<Rightarrow> nat \<Rightarrow> bytes \<Rightarrow> block \<times> nat \<times> nat \<times> bytes" where
  "prf_loop a st delta ctr off remaining dst =
     (if BLOCK_SIZE \<le> remaining
      then let buf = xor_bytes1x16 delta ctr;
               buf = AES10 a (L st ! 3) buf;
               dst = slice_assign dst off (off + BLOCK_SIZE) buf;
               ctr = ctr_increment ctr 15
           in prf_loop a st delta ctr (off + BLOCK_SIZE) (remaining - BLOCK_SIZE) dst
      else (ctr, off, remaining, dst))"
  by pat_completeness auto
termination
  by (relation "measure (\<lambda>(a, st, delta, ctr, off, remaining, dst). remaining)")
     (auto simp: BLOCK_SIZE_def)

text \<open>\<^verbatim>\<open>aez_prf(delta, tau, dst)\<close>, with \<open>tau\<close> in bytes, returning the new \<open>dst\<close>.\<close>

definition aez_prf :: "AEZState \<Rightarrow> block \<Rightarrow> nat \<Rightarrow> bytes \<Rightarrow> error + bytes" where
  "aez_prf st delta tau dst =
     (case aes st of
        None \<Rightarrow> Inl AssertionError
      | Some a \<Rightarrow>
          (case prf_loop a st delta (mk_block BLOCK_SIZE) 0 tau dst of
             (ctr, off, remaining, dst) \<Rightarrow>
               if 0 < remaining
               then let buf = xor_bytes1x16 delta ctr;
                        buf = AES10 a (L st ! 3) buf
                    in Inr (slice_assign dst off (off + remaining) (py_slice buf 0 remaining))
               else Inr dst))"

section \<open>aez-tiny\<close>

text \<open>
  One pass of the round loop of \<^verbatim>\<open>aez_tiny\<close>, on the variables it changes: the halves
  \<open>L\<close> and \<open>R\<close> (here \<open>Lh\<close> and \<open>Rh\<close>, since \<open>L\<close> is the state's field), the 32-byte
  scratch buffer \<open>buf\<close>, of which \<open>buf_view[:16]\<close> is the first block, \<open>tmp\<close> and the
  round counter \<open>j\<close>.
\<close>

definition tiny_round ::
  "AESRound \<Rightarrow> AEZState \<Rightarrow> block \<Rightarrow> nat \<Rightarrow> nat \<Rightarrow> nat \<Rightarrow> byte \<Rightarrow> byte \<Rightarrow> int
     \<Rightarrow> block \<times> block \<times> bytes \<times> block \<times> int \<Rightarrow> block \<times> block \<times> bytes \<times> block \<times> int" where
  "tiny_round a st delta in_bytes left_len idx_param msk pad step s =
     (case s of (Lh, Rh, buf, tmp, j) \<Rightarrow>
        let buf = slice_assign buf 0 BLOCK_SIZE (replicate BLOCK_SIZE 0);
            buf = slice_assign buf 0 left_len (py_slice Rh 0 left_len);
            mid_index = in_bytes div 2;
            buf = buf[mid_index := (buf ! mid_index AND msk) OR pad];
            buf = slice_assign buf 0 BLOCK_SIZE (xor_bytes1x16 (py_slice buf 0 BLOCK_SIZE) delta);
            buf = buf[15 := buf ! 15 XOR word_of_int (j AND 0xFF)];
            tmp = AES4 a ZERO_BLOCK (I st ! 1) (L st ! idx_param) (py_slice buf 0 BLOCK_SIZE);
            Lh = xor_bytes1x16 Lh tmp;
            buf = slice_assign buf 0 BLOCK_SIZE (replicate BLOCK_SIZE 0);
            buf = slice_assign buf 0 left_len (py_slice Lh 0 left_len);
            buf = buf[mid_index := (buf ! mid_index AND msk) OR pad];
            buf = slice_assign buf 0 BLOCK_SIZE (xor_bytes1x16 (py_slice buf 0 BLOCK_SIZE) delta);
            buf = buf[15 := buf ! 15 XOR word_of_int ((j + step) AND 0xFF)];
            tmp = AES4 a ZERO_BLOCK (I st ! 1) (L st ! idx_param) (py_slice buf 0 BLOCK_SIZE);
            Rh = xor_bytes1x16 Rh tmp
        in (Lh, Rh, buf, tmp, j + step * 2))"

text \<open>
  The whitening block of short messages: \<open>buf[0] |= 0x80\<close>, the XOR with \<open>delta\<close> into the
  first block of \<open>buf\<close>, and the \<open>AES4\<close> under \<open>L[3]\<close>. It returns \<open>buf\<close> and \<open>tmp\<close>.
\<close>

definition tiny_whiten :: "AESRound \<Rightarrow> AEZState \<Rightarrow> block \<Rightarrow> bytes \<Rightarrow> bytes \<times> block" where
  "tiny_whiten a st delta buf =
     (let buf = buf[0 := buf ! 0 OR 0x80];
          buf = slice_assign buf 0 BLOCK_SIZE (xor_bytes1x16 delta (py_slice buf 0 BLOCK_SIZE));
          tmp = AES4 a ZERO_BLOCK (I st ! 1) (L st ! 3) (py_slice buf 0 BLOCK_SIZE)
      in (buf, tmp))"

text \<open>
  \<^verbatim>\<open>aez_tiny(delta, data, direction, dst)\<close> is one function; its straight-line blocks
  are named here in the order in which they stand in the source.

  First the round count and the index of the \<open>L\<close> block, chosen by the length.
\<close>

definition tiny_params :: "nat \<Rightarrow> nat \<times> nat" where
  "tiny_params in_bytes =
     (if in_bytes = 1 then (7, 24)
      else if in_bytes = 2 then (7, 16)
      else if in_bytes < BLOCK_SIZE then (7, 10)
      else (6, 8))"

text \<open>
  Then the two halves: both take \<open>(in_bytes + 1) // 2\<close> bytes of the input, and for an
  odd length the right half is shifted left by four bits. The block returns the halves
  with \<open>pad\<close> and \<open>mask\<close>.
\<close>

definition tiny_halves :: "bytes \<Rightarrow> block \<times> block \<times> byte \<times> byte" where
  "tiny_halves data =
     (let in_bytes = length data;
          Lh = mk_block BLOCK_SIZE;
          Rh = mk_block BLOCK_SIZE;
          left_len = (in_bytes + 1) div 2;
          right_start = in_bytes div 2;
          Lh = slice_assign Lh 0 left_len (py_slice data 0 left_len);
          Rh = slice_assign Rh 0 left_len (py_slice data right_start (right_start + left_len))
      in if in_bytes AND 1 \<noteq> 0
         then let half = in_bytes div 2;
                  Rh = foldl (\<lambda>r k. r[k := push_bit 4 (r ! k) OR drop_bit 4 (r ! (k + 1))])
                         Rh [0..<half];
                  Rh = Rh[half := push_bit 4 (Rh ! half)]
              in (Lh, Rh, 0x08, 0xF0)
         else (Lh, Rh, 0x80, 0x00))"

text \<open>
  After the rounds the halves are put back into \<open>buf\<close>, the right one first, and for an
  odd length the bytes of the left half are shifted back by four bits, from the last byte
  down.
\<close>

definition tiny_join :: "nat \<Rightarrow> block \<Rightarrow> block \<Rightarrow> bytes \<Rightarrow> bytes" where
  "tiny_join in_bytes Lh Rh buf =
     (let half = in_bytes div 2;
          left_len = (in_bytes + 1) div 2;
          buf = slice_assign buf 0 half (py_slice Rh 0 half);
          buf = slice_assign buf half (half + left_len) (py_slice Lh 0 left_len)
      in if in_bytes AND 1 \<noteq> 0
         then let buf = foldl (\<lambda>b k. b[k := drop_bit 4 (b ! k) OR push_bit 4 (b ! (k - 1))])
                          buf (rev [half + 1..<in_bytes])
              in buf[half := (drop_bit 4 (Lh ! 0) AND 0x0F) OR (Rh ! half AND 0xF0)]
         else buf)"

text \<open>
  The whole function, returning the new \<open>dst\<close>. It is called on 1 to 31 bytes with
  \<open>direction\<close> 0 (encipher) or 1 (decipher). Deciphering a message shorter than a block
  whitens the top bit of the left half before the rounds; enciphering one whitens the top
  bit of the output after them.
\<close>

definition aez_tiny :: "AEZState \<Rightarrow> block \<Rightarrow> bytes \<Rightarrow> nat \<Rightarrow> bytes \<Rightarrow> error + bytes" where
  "aez_tiny st delta data direction dst =
     (case aes st of
        None \<Rightarrow> Inl AssertionError
      | Some a \<Rightarrow>
          let in_bytes = length data;
              buf = replicate (2 * BLOCK_SIZE) 0;
              tmp = mk_block BLOCK_SIZE;
              (idx_param, n_rounds) = tiny_params in_bytes;
              left_len = (in_bytes + 1) div 2;
              (Lh, Rh, pad, msk) = tiny_halves data;
              (Lh, buf, tmp, j, step) =
                 (if direction \<noteq> 0
                  then let (Lh, buf, tmp) =
                             (if in_bytes < BLOCK_SIZE
                              then let buf = slice_assign buf 0 BLOCK_SIZE (replicate BLOCK_SIZE 0);
                                       buf = slice_assign buf 0 in_bytes data;
                                       (buf, tmp) = tiny_whiten a st delta buf
                                   in (Lh[0 := Lh ! 0 XOR (tmp ! 0 AND 0x80)], buf, tmp)
                              else (Lh, buf, tmp))
                       in (Lh, buf, tmp, int n_rounds - 1, - 1)
                  else (Lh, buf, tmp, 0, 1 :: int));
              (Lh, Rh, buf, tmp, j) =
                 ((tiny_round a st delta in_bytes left_len idx_param msk pad step) ^^ (n_rounds div 2))
                   (Lh, Rh, buf, tmp, j);
              buf = tiny_join in_bytes Lh Rh buf;
              dst = slice_assign dst 0 in_bytes (py_slice buf 0 in_bytes)
          in if in_bytes < BLOCK_SIZE \<and> direction = 0
             then let buf = slice_assign buf in_bytes BLOCK_SIZE (replicate (BLOCK_SIZE - in_bytes) 0);
                      (buf, tmp) = tiny_whiten a st delta buf
                  in Inr (dst[0 := dst ! 0 XOR (tmp ! 0 AND 0x80)])
             else Inr dst)"

text \<open>The sizes the buffers of the round loop of \<^verbatim>\<open>aez_tiny\<close> keep.\<close>

definition tiny_inv :: "block \<times> block \<times> bytes \<times> block \<times> int \<Rightarrow> bool" where
  "tiny_inv s \<longleftrightarrow> (case s of (Lh, Rh, buf, tmp, j) \<Rightarrow>
     length Lh = 16 \<and> length Rh = 16 \<and> length buf = 32)"

section \<open>aez-core\<close>

text \<open>
  The loop of \<^verbatim>\<open>aez_core_pass1\<close>. It reads the pairs of \<open>input_bytes\<close>, writes them
  into \<open>output\<close> (the caller's \<open>dst\<close>, by slice assignment on the caller's object) and
  accumulates \<open>X\<close>. The counter is incremented before the test \<open>i % 8 == 0\<close>.
\<close>

function pass1_loop ::
  "AESRound \<Rightarrow> AEZState \<Rightarrow> bytes \<Rightarrow> nat \<Rightarrow> nat \<Rightarrow> nat \<Rightarrow> block \<Rightarrow> bytes \<Rightarrow> block
     \<Rightarrow> bytes \<times> block" where
  "pass1_loop a st input_bytes offset remaining i I_tmp output X =
     (if 64 \<le> remaining
      then let block1 = py_slice input_bytes (offset + BLOCK_SIZE) (offset + BLOCK_SIZE * 2);
               tmp = AES4 a (J st ! 0) I_tmp (L st ! (i mod 8)) block1;
               first_out = py_slice input_bytes offset (offset + BLOCK_SIZE);
               first_out = xor_bytes1x16 first_out tmp;
               output = slice_assign output offset (offset + BLOCK_SIZE) first_out;
               tmp = AES4 a ZERO_BLOCK (I st ! 0) (L st ! 0) first_out;
               second_out = py_slice input_bytes (offset + BLOCK_SIZE) (offset + BLOCK_SIZE * 2);
               second_out = xor_bytes1x16 second_out tmp;
               output = slice_assign output (offset + BLOCK_SIZE) (offset + BLOCK_SIZE * 2) second_out;
               X = xor_bytes1x16 second_out X;
               i = i + 1;
               I_tmp = (if i mod 8 = 0 then double_block I_tmp else I_tmp)
           in pass1_loop a st input_bytes (offset + 32) (remaining - 32) i I_tmp output X
      else (output, X))"
  by pat_completeness auto
termination
  by (relation "measure (\<lambda>(a, st, input_bytes, offset, remaining, i, I_tmp, output, X). remaining)")
     auto

definition aez_core_pass1 :: "AEZState \<Rightarrow> bytes \<Rightarrow> bytes \<Rightarrow> block \<Rightarrow> error + bytes \<times> block" where
  "aez_core_pass1 st input_bytes output X =
     (case aes st of
        None \<Rightarrow> Inl AssertionError
      | Some a \<Rightarrow> Inr (pass1_loop a st input_bytes 0 (length input_bytes) 1 (I st ! 1) output X))"

text \<open>
  The loop of \<^verbatim>\<open>aez_core_pass2\<close>. It reads the pairs back from \<open>output\<close>, rewrites them
  there with \<open>S\<close> and accumulates \<open>Y\<close>.
\<close>

function pass2_loop ::
  "AESRound \<Rightarrow> AEZState \<Rightarrow> nat \<Rightarrow> nat \<Rightarrow> nat \<Rightarrow> block \<Rightarrow> bytes \<Rightarrow> block \<Rightarrow> block
     \<Rightarrow> bytes \<times> block" where
  "pass2_loop a st offset remaining i I_tmp output Y S =
     (if 64 \<le> remaining
      then let first_out = py_slice output offset (offset + BLOCK_SIZE);
               second_out = py_slice output (offset + BLOCK_SIZE) (offset + BLOCK_SIZE * 2);
               tmp = AES4 a (J st ! 1) I_tmp (L st ! (i mod 8)) S;
               first_out = xor_bytes1x16 first_out tmp;
               second_out = xor_bytes1x16 second_out tmp;
               Y = xor_bytes1x16 first_out Y;
               tmp = AES4 a ZERO_BLOCK (I st ! 0) (L st ! 0) second_out;
               first_out = xor_bytes1x16 first_out tmp;
               tmp = AES4 a (J st ! 0) I_tmp (L st ! (i mod 8)) first_out;
               second_out = xor_bytes1x16 second_out tmp;
               temp = first_out;
               first_out = second_out;
               second_out = temp;
               output = slice_assign output offset (offset + BLOCK_SIZE) first_out;
               output = slice_assign output (offset + BLOCK_SIZE) (offset + BLOCK_SIZE * 2) second_out;
               i = i + 1;
               I_tmp = (if i mod 8 = 0 then double_block I_tmp else I_tmp)
           in pass2_loop a st (offset + 32) (remaining - 32) i I_tmp output Y S
      else (output, Y))"
  by pat_completeness auto
termination
  by (relation "measure (\<lambda>(a, st, offset, remaining, i, I_tmp, output, Y, S). remaining)") auto

definition aez_core_pass2 ::
  "AEZState \<Rightarrow> bytes \<Rightarrow> bytes \<Rightarrow> block \<Rightarrow> block \<Rightarrow> error + bytes \<times> block" where
  "aez_core_pass2 st input_bytes output Y S =
     (case aes st of
        None \<Rightarrow> Inl AssertionError
      | Some a \<Rightarrow> Inr (pass2_loop a st 0 (length input_bytes) 1 (I st ! 1) output Y S))"

text \<open>
  The fragment step of \<^verbatim>\<open>aez_core\<close> after the second pass, on the local objects
  \<open>dst_fragment\<close> and \<open>input_fragment\<close> and on \<open>Y\<close>. It returns \<open>dst_fragment\<close> and \<open>Y\<close>.
\<close>

definition core_fragment ::
  "AESRound \<Rightarrow> AEZState \<Rightarrow> nat \<Rightarrow> block \<Rightarrow> bytes \<Rightarrow> bytes \<Rightarrow> block \<Rightarrow> bytes \<times> block" where
  "core_fragment a st frag_bytes S input_fragment dst_fragment Y =
     (if BLOCK_SIZE \<le> frag_bytes
      then let tmp_block = AES10 a (L st ! 4) S;
               block = py_slice input_fragment 0 BLOCK_SIZE;
               block = xor_bytes1x16 block tmp_block;
               dst_fragment = slice_assign dst_fragment 0 BLOCK_SIZE block;
               tmp = AES4 a ZERO_BLOCK (I st ! 1) (L st ! 4) block;
               Y = xor_bytes1x16 Y tmp;
               remaining = frag_bytes - BLOCK_SIZE;
               tmp_block = AES10 a (L st ! 5) S;
               buf = tmp_block;
               fragment = py_slice input_fragment BLOCK_SIZE (BLOCK_SIZE + remaining);
               buf = foldl (\<lambda>b idx. b[idx := b ! idx XOR fragment ! idx]) buf [0..<remaining];
               dst_fragment = slice_assign dst_fragment BLOCK_SIZE (BLOCK_SIZE + remaining)
                                (py_slice buf 0 remaining);
               buf = replicate BLOCK_SIZE 0;
               buf = slice_assign buf 0 remaining
                       (py_slice dst_fragment BLOCK_SIZE (BLOCK_SIZE + remaining));
               buf = buf[remaining := 0x80];
               tmp = AES4 a ZERO_BLOCK (I st ! 1) (L st ! 5) buf;
               Y = xor_bytes1x16 Y tmp
           in (drop (BLOCK_SIZE + remaining) dst_fragment, Y)
      else if 0 < frag_bytes
      then let tmp_block = AES10 a (L st ! 4) S;
               buf = tmp_block;
               fragment = py_slice input_fragment 0 frag_bytes;
               buf = foldl (\<lambda>b idx. b[idx := b ! idx XOR fragment ! idx]) buf [0..<frag_bytes];
               dst_fragment = slice_assign dst_fragment 0 frag_bytes (py_slice buf 0 frag_bytes);
               buf = replicate BLOCK_SIZE 0;
               buf = slice_assign buf 0 frag_bytes (py_slice dst_fragment 0 frag_bytes);
               buf = buf[frag_bytes := 0x80];
               tmp = AES4 a ZERO_BLOCK (I st ! 1) (L st ! 4) buf;
               Y = xor_bytes1x16 Y tmp
           in (drop frag_bytes dst_fragment, Y)
      else (dst_fragment, Y))"

text \<open>
  \<^verbatim>\<open>aez_core(delta, data, direction, dst)\<close> is one long function; its straight-line
  blocks are named here in the order in which they stand in the source.

  First the contribution of the fragment to \<open>X\<close>, from \<open>tail = input_bytes[initial_bytes:]\<close>.
\<close>

definition core_tail_X :: "AESRound \<Rightarrow> AEZState \<Rightarrow> nat \<Rightarrow> bytes \<Rightarrow> block \<Rightarrow> block" where
  "core_tail_X a st frag_bytes tail X =
     (if BLOCK_SIZE \<le> frag_bytes
      then let buf = slice_assign (mk_block BLOCK_SIZE) 0 BLOCK_SIZE
                       (py_slice tail BLOCK_SIZE (BLOCK_SIZE * 2));
               tmp = AES4 a ZERO_BLOCK (I st ! 1) (L st ! 4) buf;
               X = xor_bytes1x16 X tmp;
               padded = one_zero_pad (drop BLOCK_SIZE tail) (frag_bytes - BLOCK_SIZE)
                          (mk_block BLOCK_SIZE);
               tmp = AES4 a ZERO_BLOCK (I st ! 1) (L st ! 5) padded
           in xor_bytes1x16 X tmp
      else if 0 < frag_bytes
      then let padded = one_zero_pad tail frag_bytes (mk_block BLOCK_SIZE);
               tmp = AES4 a ZERO_BLOCK (I st ! 1) (L st ! 4) padded
           in xor_bytes1x16 X tmp
      else X)"

text \<open>
  Then the final 32-byte pair: \<open>dst_tail = dst[in_bytes - 32:in_bytes]\<close> is a slice of the
  caller's buffer, and a slice of a \<^verbatim>\<open>bytearray\<close> is a new object. The two halves are
  assigned into this new object, and \<open>S\<close> is their XOR. The block returns the local
  \<open>dst_tail\<close> and \<open>S\<close>.
\<close>

definition core_final_pair ::
  "AESRound \<Rightarrow> AEZState \<Rightarrow> block \<Rightarrow> nat \<Rightarrow> bytes \<Rightarrow> bytes \<Rightarrow> block \<Rightarrow> bytes \<times> block" where
  "core_final_pair a st delta direction input_bytes dst X =
     (let in_bytes = length input_bytes;
          dst_tail = py_slice dst (in_bytes - 32) in_bytes;
          input_tail = py_slice input_bytes (in_bytes - 32) in_bytes;
          block1 = slice_assign (mk_block BLOCK_SIZE) 0 BLOCK_SIZE (py_slice input_tail 0 BLOCK_SIZE);
          block2 = slice_assign (mk_block BLOCK_SIZE) 0 BLOCK_SIZE
                     (py_slice input_tail BLOCK_SIZE (BLOCK_SIZE * 2));
          tmp = AES4 a ZERO_BLOCK (I st ! 1) (L st ! ((1 + direction) mod 8)) block2;
          first_dst = xor_bytes4x16 X block1 delta tmp;
          dst_tail = slice_assign dst_tail 0 BLOCK_SIZE first_dst;
          tmp2 = AES10 a (L st ! ((1 + direction) mod 8)) first_dst;
          second_dst = xor_bytes1x16 block2 tmp2;
          dst_tail = slice_assign dst_tail BLOCK_SIZE (BLOCK_SIZE * 2) second_dst;
          S = xor_bytes1x16 first_dst second_dst
      in (dst_tail, S))"

text \<open>
  The last block takes \<open>dst_tail = dst[in_bytes - 32:in_bytes]\<close> again, a fresh slice of the
  caller's buffer, finishes the pair in it and swaps its two halves. It returns this local.
\<close>

definition core_finish ::
  "AESRound \<Rightarrow> AEZState \<Rightarrow> block \<Rightarrow> nat \<Rightarrow> nat \<Rightarrow> bytes \<Rightarrow> block \<Rightarrow> bytes" where
  "core_finish a st delta direction in_bytes dst Y =
     (let dst_tail = py_slice dst (in_bytes - 32) in_bytes;
          second_half = py_slice dst_tail BLOCK_SIZE (BLOCK_SIZE * 2);
          tmp_block = AES10 a (L st ! ((2 - direction) mod 8)) second_half;
          first_half = py_slice dst_tail 0 BLOCK_SIZE;
          first_half = xor_bytes1x16 first_half tmp_block;
          dst_tail = slice_assign dst_tail 0 BLOCK_SIZE first_half;
          tmp = AES4 a ZERO_BLOCK (I st ! 1) (L st ! ((2 - direction) mod 8)) first_half;
          combined = xor_bytes4x16 tmp (py_slice dst_tail BLOCK_SIZE (BLOCK_SIZE * 2)) delta Y;
          dst_tail = slice_assign dst_tail BLOCK_SIZE (BLOCK_SIZE * 2) combined;
          tmp_copy = py_slice dst_tail 0 BLOCK_SIZE;
          dst_tail = slice_assign dst_tail 0 BLOCK_SIZE combined
      in slice_assign dst_tail BLOCK_SIZE (BLOCK_SIZE * 2) tmp_copy)"

text \<open>
  The whole function, called on at least 32 bytes with \<open>direction\<close> 0 or 1. The caller's
  buffer \<open>dst\<close> is handed to the two passes, which write into it; every other write goes
  to the locals above. The function returns the caller's \<open>dst\<close> after the call, together
  with the local \<open>dst_tail\<close> as it is when the function ends and is dropped.
\<close>

definition aez_core_locals ::
  "AEZState \<Rightarrow> block \<Rightarrow> bytes \<Rightarrow> nat \<Rightarrow> bytes \<Rightarrow> error + bytes \<times> bytes" where
  "aez_core_locals st delta data direction dst =
     (case aes st of
        None \<Rightarrow> Inl AssertionError
      | Some a \<Rightarrow>
          let in_bytes = length data;
              frag_bytes = in_bytes mod 32;
              initial_bytes = in_bytes - frag_bytes - 32;
              X = mk_block BLOCK_SIZE;
              Y = mk_block BLOCK_SIZE;
              input_bytes = data
          in case (if 64 \<le> in_bytes then aez_core_pass1 st input_bytes dst X else Inr (dst, X)) of
               Inl e \<Rightarrow> Inl e
             | Inr (dst, X) \<Rightarrow>
          let tail = drop initial_bytes input_bytes;
              X = core_tail_X a st frag_bytes tail X;
              (dst_tail, S) = core_final_pair a st delta direction input_bytes dst X
          in case (if 64 \<le> in_bytes then aez_core_pass2 st input_bytes dst Y S else Inr (dst, Y)) of
               Inl e \<Rightarrow> Inl e
             | Inr (dst, Y) \<Rightarrow>
          let dst_fragment = drop initial_bytes dst;
              input_fragment = drop initial_bytes input_bytes;
              (dst_fragment, Y) = core_fragment a st frag_bytes S input_fragment dst_fragment Y;
              dst_tail = core_finish a st delta direction in_bytes dst Y
          in Inr (dst, dst_tail))"

definition aez_core :: "AEZState \<Rightarrow> block \<Rightarrow> bytes \<Rightarrow> nat \<Rightarrow> bytes \<Rightarrow> error + bytes" where
  "aez_core st delta data direction dst =
     (case aez_core_locals st delta data direction dst of
        Inl e \<Rightarrow> Inl e
      | Inr (dst, dst_tail) \<Rightarrow> Inr dst)"

text \<open>\<^verbatim>\<open>encipher\<close> and \<^verbatim>\<open>decipher\<close>: the dispatch on the length, returning \<open>dst\<close>.\<close>

definition encipher :: "AEZState \<Rightarrow> block \<Rightarrow> bytes \<Rightarrow> bytes \<Rightarrow> error + bytes" where
  "encipher st delta data dst =
     (if data = [] then Inr dst
      else if length data < 32 then aez_tiny st delta data 0 dst
      else aez_core st delta data 0 dst)"

definition decipher :: "AEZState \<Rightarrow> block \<Rightarrow> bytes \<Rightarrow> bytes \<Rightarrow> error + bytes" where
  "decipher st delta data dst =
     (if data = [] then Inr dst
      else if length data < 32 then aez_tiny st delta data 1 dst
      else aez_core st delta data 1 dst)"

section \<open>The decrypt driver\<close>

text \<open>
  The second tag loop of \<^verbatim>\<open>_aez_decrypt\<close>: \<^verbatim>\<open>mismatch |= x[len(ciphertext) - tau + i]\<close>
  for the indices \<open>i\<close> of the list, where \<open>base\<close> is \<^verbatim>\<open>len(ciphertext) - tau\<close>. The index
  is a Python index: it may be negative, and it raises when it is out of range.
\<close>

fun tag_or :: "bytes \<Rightarrow> int \<Rightarrow> nat list \<Rightarrow> byte \<Rightarrow> error + byte" where
  "tag_or x base [] mismatch = Inr mismatch"
| "tag_or x base (i # is) mismatch =
     (case py_index x (base + int i) of
        Inl e \<Rightarrow> Inl e
      | Inr b \<Rightarrow> tag_or x base is (mismatch OR b))"

text \<open>
  The first tag loop: \<^verbatim>\<open>mismatch |= x[i] ^ ciphertext[i]\<close>, with both indexings checked.
\<close>

fun tag_xor_or :: "bytes \<Rightarrow> bytes \<Rightarrow> nat list \<Rightarrow> byte \<Rightarrow> error + byte" where
  "tag_xor_or x c [] mismatch = Inr mismatch"
| "tag_xor_or x c (i # is) mismatch =
     (case py_index x (int i) of
        Inl e \<Rightarrow> Inl e
      | Inr b \<Rightarrow>
          (case py_index c (int i) of
             Inl e \<Rightarrow> Inl e
           | Inr b' \<Rightarrow> tag_xor_or x c is (mismatch OR (b XOR b'))))"

text \<open>
  \<^verbatim>\<open>_aez_decrypt(key, ad_list, tau, ciphertext)\<close>: \<open>Inr None\<close> is the returned
  \<^verbatim>\<open>None\<close>, \<open>Inr (Some p)\<close> the returned plaintext, \<open>Inl e\<close> a raised exception. The tag
  length \<open>tau\<close> is a number of bytes.
\<close>

definition aez_decrypt ::
  "(bytes \<Rightarrow> bytes) \<Rightarrow> bytes \<Rightarrow> bytes list \<Rightarrow> nat \<Rightarrow> bytes \<Rightarrow> error + bytes option" where
  "aez_decrypt blake2b key ad_list tau ciphertext =
     (let state = AEZState_new;
          state = reset state;
          state = init blake2b key state
      in case aez_hash state None ad_list (tau * 8) of
           Inl e \<Rightarrow> Inl e
         | Inr delta \<Rightarrow>
             let x = replicate (length ciphertext) 0
             in if length ciphertext = tau
                then (case aez_prf state delta tau x of
                        Inl e \<Rightarrow> Inl e
                      | Inr x \<Rightarrow>
                          (case tag_xor_or x ciphertext [0..<tau] 0 of
                             Inl e \<Rightarrow> Inl e
                           | Inr mismatch \<Rightarrow> if mismatch \<noteq> 0 then Inr None else Inr (Some [])))
                else (case decipher state delta ciphertext x of
                        Inl e \<Rightarrow> Inl e
                      | Inr x \<Rightarrow>
                          (case tag_or x (int (length ciphertext) - int tau) [0..<tau] 0 of
                             Inl e \<Rightarrow> Inl e
                           | Inr mismatch \<Rightarrow>
                               if mismatch \<noteq> 0 then Inr None
                               else Inr (Some (py_slice_to x (int (length ciphertext) - int tau))))))"

text \<open>
  The decrypt driver as the specification words it (its section 4.7), to be compared with
  \<^verbatim>\<open>_aez_decrypt\<close> above: instantiate the state and \<open>init(key)\<close>; \<open>delta\<close> is the hash of
  no nonce, the associated data and \<open>8 \<cdot> tau\<close>; if \<open>|C| = tau\<close>, the \<open>tau\<close>-byte PRF stream
  must equal \<open>C\<close>, and the plaintext is empty; else \<open>x = decipher(delta, C)\<close>, the
  OR-reduction of the last \<open>tau\<close> bytes of \<open>x\<close> must be zero, and the plaintext is the
  first \<open>|C| - tau\<close> bytes of \<open>x\<close>. \<open>Inr None\<close> is the authentication failure.
\<close>

definition spec_decrypt ::
  "(bytes \<Rightarrow> bytes) \<Rightarrow> bytes \<Rightarrow> bytes list \<Rightarrow> nat \<Rightarrow> bytes \<Rightarrow> error + bytes option" where
  "spec_decrypt blake2b key ad tau C =
     (let state = init blake2b key AEZState_new
      in case aez_hash state None ad (8 * tau) of
           Inl e \<Rightarrow> Inl e
         | Inr delta \<Rightarrow>
             if length C = tau
             then (case aez_prf state delta tau (replicate tau 0) of
                     Inl e \<Rightarrow> Inl e
                   | Inr stream \<Rightarrow> if stream \<noteq> C then Inr None else Inr (Some []))
             else (case decipher state delta C (replicate (length C) 0) of
                     Inl e \<Rightarrow> Inl e
                   | Inr x \<Rightarrow>
                       if foldl (OR) 0 (drop (length x - tau) x) \<noteq> 0 then Inr None
                       else Inr (Some (take (length C - tau) x))))"

section \<open>The mnemonic codec\<close>

text \<open>
  The inner \<^verbatim>\<open>while bit_len >= 8\<close> loop of \<^verbatim>\<open>mnemonic_to_bytes\<close>, on the accumulator
  \<open>bits\<close> (a Python integer), the number of buffered bits, the output buffer and the write
  position. A write past the end of \<open>out\<close> raises.
\<close>

function emit_loop :: "int \<Rightarrow> nat \<Rightarrow> bytes \<Rightarrow> nat \<Rightarrow> error + int \<times> nat \<times> bytes \<times> nat" where
  "emit_loop bits bit_len out pos =
     (if 8 \<le> bit_len
      then let bit_len = bit_len - 8
           in if pos < length out
              then emit_loop (bits AND (if bit_len \<noteq> 0 then push_bit bit_len 1 - 1 else 0)) bit_len
                     (out[pos := word_of_int (drop_bit bit_len bits AND 0xFF)]) (pos + 1)
              else Inl IndexError
      else Inr (bits, bit_len, out, pos))"
  by pat_completeness auto
termination
  by (relation "measure (\<lambda>(bits, bit_len, out, pos). bit_len)") auto

text \<open>
  The \<^verbatim>\<open>for word in words\<close> loop. The dictionary maps a word to a Python integer; a
  missing word raises \<^verbatim>\<open>KeyError\<close>, which the source turns into
  \<^verbatim>\<open>InvalidMnemonicError\<close> on the spot.
\<close>

fun pack_loop ::
  "(string \<rightharpoonup> int) \<Rightarrow> string list \<Rightarrow> int \<Rightarrow> nat \<Rightarrow> bytes \<Rightarrow> nat \<Rightarrow> error + bytes" where
  "pack_loop word_to_index [] bits bit_len out pos = Inr out"
| "pack_loop word_to_index (word # words) bits bit_len out pos =
     (case word_to_index word of
        None \<Rightarrow> Inl (InvalidMnemonicError (''unknown word: '' @ word))
      | Some idx \<Rightarrow>
          (case emit_loop (push_bit BitsPerWord bits OR idx) (bit_len + BitsPerWord) out pos of
             Inl e \<Rightarrow> Inl e
           | Inr (bits, bit_len, out, pos) \<Rightarrow> pack_loop word_to_index words bits bit_len out pos))"

definition mnemonic_to_bytes :: "string list \<Rightarrow> (string \<rightharpoonup> int) \<Rightarrow> error + bytes" where
  "mnemonic_to_bytes words word_to_index =
     (if length words \<noteq> 24
      then Inl (InvalidMnemonicError ''aezeed mnemonics must have 24 words'')
      else pack_loop word_to_index words 0 0 (replicate EncipheredCipherSeedSize 0) 0)"

text \<open>\<^verbatim>\<open>xs[k:]\<close> for any integer \<open>k\<close>.\<close>

definition py_slice_from :: "'a list \<Rightarrow> int \<Rightarrow> 'a list" where
  "py_slice_from xs k = (if k < 0 then drop (nat (int (length xs) + k)) xs else drop (nat k) xs)"

text \<open>
  \<^verbatim>\<open>validate_mnemonic\<close>: only \<^verbatim>\<open>InvalidMnemonicError\<close> is caught; any other exception
  of the packing, and of the indexing \<^verbatim>\<open>cipher_bytes[0]\<close>, would propagate.
\<close>

definition validate_mnemonic :: "string list \<Rightarrow> (string \<rightharpoonup> int) \<Rightarrow> error + bool" where
  "validate_mnemonic words word_to_index =
     (case mnemonic_to_bytes words word_to_index of
        Inl (InvalidMnemonicError msg) \<Rightarrow> Inr False
      | Inl e \<Rightarrow> Inl e
      | Inr cipher_bytes \<Rightarrow>
          (case py_index cipher_bytes 0 of
             Inl e \<Rightarrow> Inl e
           | Inr version \<Rightarrow>
               if version \<noteq> CipherSeedVersion then Inr False
               else let expected = from_bytes_be (py_slice_from cipher_bytes (- 4));
                        computed = crc32c (py_slice cipher_bytes 0 (EncipheredCipherSeedSize - 4))
                    in Inr (expected = computed)))"

definition encode_ad :: "byte \<Rightarrow> bytes \<Rightarrow> bytes" where
  "encode_ad version salt' = [version] @ salt'"

text \<open>
  \<^verbatim>\<open>str.encode("utf-8")\<close> is Python's: the standard UTF-8 encoding of each code point,
  which raises \<^verbatim>\<open>UnicodeEncodeError\<close> on a surrogate. The code points of a Python string
  are below \<open>0x110000\<close>.
\<close>

definition utf8_char :: "nat \<Rightarrow> error + bytes" where
  "utf8_char cp =
     (if cp < 0x80 then Inr [of_nat cp]
      else if cp < 0x800 then Inr [0xC0 OR of_nat (cp div 64), 0x80 OR of_nat (cp mod 64)]
      else if cp < 0x10000
      then if 0xD800 \<le> cp \<and> cp \<le> 0xDFFF then Inl UnicodeEncodeError
           else Inr [0xE0 OR of_nat (cp div 4096), 0x80 OR of_nat (cp div 64 mod 64),
                     0x80 OR of_nat (cp mod 64)]
      else Inr [0xF0 OR of_nat (cp div 262144), 0x80 OR of_nat (cp div 4096 mod 64),
                0x80 OR of_nat (cp div 64 mod 64), 0x80 OR of_nat (cp mod 64)])"

fun utf8_encode :: "pystr \<Rightarrow> error + bytes" where
  "utf8_encode [] = Inr []"
| "utf8_encode (cp # cps) =
     (case utf8_char cp of
        Inl e \<Rightarrow> Inl e
      | Inr bs \<Rightarrow> (case utf8_encode cps of Inl e \<Rightarrow> Inl e | Inr rest \<Rightarrow> Inr (bs @ rest)))"

text \<open>
  The calls \<^verbatim>\<open>decode_mnemonic\<close> makes to the key derivation and to the cipher, with
  their arguments, in the order it makes them. \<^verbatim>\<open>hashlib.scrypt\<close> is a parameter
  \<open>scrypt password salt n r p dklen maxmem\<close>.
\<close>

datatype call =
    ScryptCall bytes bytes nat nat nat nat nat
  | AezDecryptCall bytes "bytes list" nat bytes

type_synonym scrypt_fun = "bytes \<Rightarrow> bytes \<Rightarrow> nat \<Rightarrow> nat \<Rightarrow> nat \<Rightarrow> nat \<Rightarrow> nat \<Rightarrow> bytes"

text \<open>
  \<^verbatim>\<open>decode_mnemonic(words, passphrase, word_to_index)\<close>: the calls made and the outcome.
  A passphrase that is \<^verbatim>\<open>None\<close> or empty contributes the empty string
  (\<^verbatim>\<open>passphrase or ""\<close>).
\<close>

definition decode_mnemonic ::
  "scrypt_fun \<Rightarrow> (bytes \<Rightarrow> bytes) \<Rightarrow> string list \<Rightarrow> pystr option \<Rightarrow> (string \<rightharpoonup> int)
     \<Rightarrow> call list \<times> (error + DecipheredCipherSeed)" where
  "decode_mnemonic scrypt blake2b words passphrase word_to_index =
     (case mnemonic_to_bytes words word_to_index of
        Inl e \<Rightarrow> ([], Inl e)
      | Inr cipher_bytes \<Rightarrow>
     (case py_index cipher_bytes 0 of
        Inl e \<Rightarrow> ([], Inl e)
      | Inr version \<Rightarrow>
          if version \<noteq> CipherSeedVersion
          then ([], Inl (InvalidMnemonicError ''unsupported aezeed version''))
          else
            let checksum = from_bytes_be (py_slice_from cipher_bytes (- 4));
                computed = crc32c (py_slice cipher_bytes 0 (EncipheredCipherSeedSize - 4))
            in if checksum \<noteq> computed
               then ([], Inl (InvalidMnemonicError ''checksum mismatch''))
               else
                 let salt' = py_slice cipher_bytes (EncipheredCipherSeedSize - 4 - SaltSize)
                              (EncipheredCipherSeedSize - 4);
                     ciphertext = py_slice cipher_bytes 1 (EncipheredCipherSeedSize - 4 - SaltSize)
                 in case utf8_encode
                           (DEFAULT_PASSPHRASE @ (case passphrase of None \<Rightarrow> [] | Some p \<Rightarrow> p)) of
                      Inl e \<Rightarrow> ([], Inl e)
                    | Inr pass_bytes \<Rightarrow>
                        let key = scrypt pass_bytes salt' 32768 8 1 32 2000000000;
                            ad = encode_ad version salt';
                            calls = [ScryptCall pass_bytes salt' 32768 8 1 32 2000000000,
                                     AezDecryptCall key [ad] CipherTextExpansion ciphertext]
                        in case aez_decrypt blake2b key [ad] CipherTextExpansion ciphertext of
                             Inl e \<Rightarrow> (calls, Inl e)
                           | Inr None \<Rightarrow> (calls, Inl InvalidPassphraseError)
                           | Inr (Some plaintext) \<Rightarrow>
                               if length plaintext \<noteq> DecipheredCipherSeedSize
                               then (calls, Inl InvalidPassphraseError)
                               else (calls,
                                     Inr \<lparr>entropy = drop 3 plaintext, salt = salt',
                                          internal_version = plaintext ! 0,
                                          birthday = from_bytes_be (py_slice plaintext 1 3)\<rparr>)))"


section \<open>A worked mnemonic\<close>

text \<open>
  A small dictionary and a 24-word mnemonic over it whose envelope has version 0, a zero
  ciphertext, the salt \<open>01 02 03 04 05\<close> and the matching checksum \<open>5D DD 2B A6\<close>. It is
  the concrete input on which the statements about the decoder are instantiated.
\<close>

definition example_index :: "string \<rightharpoonup> int" where
  "example_index =
     [''abandon'' \<mapsto> 0, ''echo'' \<mapsto> 516, ''alpha'' \<mapsto> 48, ''earth'' \<mapsto> 514,
      ''quiz'' \<mapsto> 1399, ''kite'' \<mapsto> 933, ''kiwi'' \<mapsto> 934]"

definition example_words :: "string list" where
  "example_words =
     [''abandon'', ''abandon'', ''abandon'', ''abandon'', ''abandon'', ''abandon'',
      ''abandon'', ''abandon'', ''abandon'', ''abandon'', ''abandon'', ''abandon'',
      ''abandon'', ''abandon'', ''abandon'', ''abandon'', ''abandon'', ''abandon'',
      ''echo'', ''alpha'', ''earth'', ''quiz'', ''kite'', ''kiwi'']"

definition example_env :: bytes where
  "example_env =
     [0, 0, 0, 0, 0, 0, 0, 0, 0, 0, 0, 0, 0, 0, 0, 0, 0, 0, 0, 0, 0, 0, 0, 0,
      1, 2, 3, 4, 5, 0x5D, 0xDD, 0x2B, 0xA6]"

section \<open>Helper facts on lists and bytes\<close>

declare mult_loop.simps [simp del]

lemma upt15: "[0..<15] = [0,1,2,3,4,5,6,7,8,9,10,11,12,13,14]"
  by (simp add: upt_rec)

lemma upt16: "[0..<16] = [0,1,2,3,4,5,6,7,8,9,10,11,12,13,14,15]"
  by (simp add: upt_rec)

lemma block16_cases:
  assumes "length (p :: 'a list) = 16"
  obtains a0 a1 a2 a3 a4 a5 a6 a7 a8 a9 a10 a11 a12 a13 a14 a15
  where "p = [a0, a1, a2, a3, a4, a5, a6, a7, a8, a9, a10, a11, a12, a13, a14, a15]"
  using assms by (auto simp: eval_nat_numeral length_Suc_conv)

lemma length_xor_bytes1x16 [simp]: "length (xor_bytes1x16 a b) = 16"
  by (simp add: xor_bytes1x16_def BLOCK_SIZE_def)

lemma length_xor_bytes4x16 [simp]: "length (xor_bytes4x16 a b c d) = 16"
  by (simp add: xor_bytes4x16_def BLOCK_SIZE_def)

lemma length_foldl_update:
  "length (foldl (\<lambda>q i. q[i := f q i]) p is) = length p"
  by (induction "is" arbitrary: p) simp_all

lemma length_double_block [simp]: "length (double_block p) = length p"
  by (simp add: double_block_def Let_def length_foldl_update)

lemma xor_zero_block_left:
  assumes "length d = 16"
  shows "xor_bytes1x16 (mk_block BLOCK_SIZE) d = d"
proof (rule nth_equalityI)
  show "length (xor_bytes1x16 (mk_block BLOCK_SIZE) d) = length d"
    using assms by simp
next
  fix i
  assume "i < length (xor_bytes1x16 (mk_block BLOCK_SIZE) d)"
  then have "i < 16" by simp
  then show "xor_bytes1x16 (mk_block BLOCK_SIZE) d ! i = d ! i"
    by (simp add: xor_bytes1x16_def mk_block_def BLOCK_SIZE_def)
qed

lemma mult_loop_0: "mult_loop 0 t r = r"
  by (subst mult_loop.simps) simp

lemma mult_loop_step:
  "x \<noteq> 0 \<Longrightarrow> mult_loop x t r =
     mult_loop (x div 2) (double_block t) (if x AND 1 \<noteq> 0 then xor_bytes1x16 r t else r)"
  by (subst mult_loop.simps) simp

lemma mult_block_2:
  assumes "length src = 16"
  shows "mult_block 2 src = double_block src"
proof -
  have "mult_loop 2 src (mk_block BLOCK_SIZE)
        = mult_loop 1 (double_block src) (mk_block BLOCK_SIZE)"
    by (subst mult_loop_step) simp_all
  also have "\<dots> = mult_loop 0 (double_block (double_block src))
                     (xor_bytes1x16 (mk_block BLOCK_SIZE) (double_block src))"
    by (subst mult_loop_step) simp_all
  also have "\<dots> = double_block src"
    using assms by (simp add: mult_loop_0 xor_zero_block_left)
  finally show ?thesis by (simp add: mult_block_def)
qed

section \<open>CRC32C of the reference vector\<close>

lemma crc32c_table_nth: "k < 256 \<Longrightarrow> crc32c_table ! k = crc32c_table_entry (int k)"
  unfolding crc32c_table_def by simp

lemma crc32c_table_entry_36: "crc32c_table_entry 36 = 3878099393"
  by (simp add: crc32c_table_entry_def crc32c_bit_step_def CRC32C_POLY_def eval_nat_numeral)

lemma crc32c_table_entry_45: "crc32c_table_entry 45 = 2677391885"
  by (simp add: crc32c_table_entry_def crc32c_bit_step_def CRC32C_POLY_def eval_nat_numeral)

lemma crc32c_table_entry_46: "crc32c_table_entry 46 = 2361733625"
  by (simp add: crc32c_table_entry_def crc32c_bit_step_def CRC32C_POLY_def eval_nat_numeral)

lemma crc32c_table_entry_78: "crc32c_table_entry 78 = 3976438427"
  by (simp add: crc32c_table_entry_def crc32c_bit_step_def CRC32C_POLY_def eval_nat_numeral)

lemma crc32c_table_entry_92: "crc32c_table_entry 92 = 476452099"
  by (simp add: crc32c_table_entry_def crc32c_bit_step_def CRC32C_POLY_def eval_nat_numeral)

lemma crc32c_table_entry_121: "crc32c_table_entry 121 = 153784257"
  by (simp add: crc32c_table_entry_def crc32c_bit_step_def CRC32C_POLY_def eval_nat_numeral)

lemma crc32c_table_entry_172: "crc32c_table_entry 172 = 4010310262"
  by (simp add: crc32c_table_entry_def crc32c_bit_step_def CRC32C_POLY_def eval_nat_numeral)

lemma crc32c_table_entry_206: "crc32c_table_entry 206 = 1878366691"
  by (simp add: crc32c_table_entry_def crc32c_bit_step_def CRC32C_POLY_def eval_nat_numeral)

lemma crc32c_table_entry_252: "crc32c_table_entry 252 = 3190661285"
  by (simp add: crc32c_table_entry_def crc32c_bit_step_def CRC32C_POLY_def eval_nat_numeral)

text \<open>
  Claim C6. The CRC32C of the module (\<^verbatim>\<open>_crc32c\<close>: table-driven, reflected Castagnoli
  polynomial \<open>0x82F63B78\<close>, initial value \<open>0xFFFFFFFF\<close>, final complement) of the nine
  ASCII bytes of "123456789" is \<open>0xE3069283\<close>.
\<close>

theorem crc32c_reference_vector:
  "crc32c [0x31, 0x32, 0x33, 0x34, 0x35, 0x36, 0x37, 0x38, 0x39] = 0xE3069283"
  by (simp add: crc32c_def crc32c_table_nth crc32c_table_entry_36 crc32c_table_entry_45
      crc32c_table_entry_46 crc32c_table_entry_78 crc32c_table_entry_92 crc32c_table_entry_121
      crc32c_table_entry_172 crc32c_table_entry_206 crc32c_table_entry_252)

section \<open>Doubling in GF(2^128) is linear\<close>

lemma shl_or_xor:
  "(push_bit 1 (a XOR b) OR drop_bit 7 (c XOR d) :: byte)
   = (push_bit 1 a OR drop_bit 7 c) XOR (push_bit 1 b OR drop_bit 7 d)"
proof (rule bit_eqI)
  fix n
  assume "possible_bit TYPE(byte) n"
  have hi: "bit (drop_bit 7 y :: byte) n \<Longrightarrow> n = 0" for y
  proof -
    assume "bit (drop_bit 7 y :: byte) n"
    then have "bit y (7 + n)" by (simp only: bit_drop_bit_eq o_def)
    then have "7 + n < 8" using bit_imp_le_length[of y "7 + n"] by simp
    then show "n = 0" by simp
  qed
  have lo: "bit (push_bit 1 x :: byte) n \<Longrightarrow> n \<noteq> 0" for x
    by (simp only: bit_push_bit_iff) simp
  have X: "bit (push_bit 1 (a XOR b)) n = (bit (push_bit 1 a) n \<noteq> bit (push_bit 1 b) n)"
    by (simp only: push_bit_xor bit_xor_iff)
  have Y: "bit (drop_bit 7 (c XOR d)) n = (bit (drop_bit 7 c) n \<noteq> bit (drop_bit 7 d) n)"
    by (simp only: drop_bit_xor bit_xor_iff)
  show "bit (push_bit 1 (a XOR b) OR drop_bit 7 (c XOR d)) n
      = bit ((push_bit 1 a OR drop_bit 7 c) XOR (push_bit 1 b OR drop_bit 7 d)) n"
    unfolding bit_or_iff bit_xor_iff X Y
    using hi[of c] hi[of d] lo[of a] lo[of b] by blast
qed

lemma shl_and_xor:
  "(push_bit 1 (a XOR b) AND 0xFE :: byte) = (push_bit 1 a AND 0xFE) XOR (push_bit 1 b AND 0xFE)"
  by (simp only: push_bit_xor bit.conj_xor_distrib2)

lemma msb_bit: "((x :: byte) AND 0x80 \<noteq> 0) = bit x 7"
proof -
  have "(0x80 :: byte) = push_bit 7 1" by simp
  then show ?thesis by (simp only: bit_iff_and_push_bit_not_eq_0)
qed

lemma last_byte_xor:
  "((push_bit 1 (a XOR b) AND 0xFE) XOR (if (c XOR d) AND (0x80 :: byte) \<noteq> 0 then 0x87 else 0) :: byte)
   = ((push_bit 1 a AND 0xFE) XOR (if c AND 0x80 \<noteq> 0 then 0x87 else 0))
     XOR ((push_bit 1 b AND 0xFE) XOR (if d AND 0x80 \<noteq> 0 then 0x87 else 0))"
proof -
  have "((if (c XOR d) AND (0x80 :: byte) \<noteq> 0 then 0x87 else 0) :: byte)
        = (if c AND 0x80 \<noteq> 0 then 0x87 else 0) XOR (if d AND 0x80 \<noteq> 0 then 0x87 else 0)"
    by (simp only: msb_bit bit_xor_iff) simp
  then show ?thesis
    by (simp only: shl_and_xor) (simp only: ac_simps)
qed

lemma double_block_explicit:
  "double_block [a0, a1, a2, a3, a4, a5, a6, a7, a8, a9, a10, a11, a12, a13, a14, a15] =
   [push_bit 1 a0 OR drop_bit 7 a1, push_bit 1 a1 OR drop_bit 7 a2,
    push_bit 1 a2 OR drop_bit 7 a3, push_bit 1 a3 OR drop_bit 7 a4,
    push_bit 1 a4 OR drop_bit 7 a5, push_bit 1 a5 OR drop_bit 7 a6,
    push_bit 1 a6 OR drop_bit 7 a7, push_bit 1 a7 OR drop_bit 7 a8,
    push_bit 1 a8 OR drop_bit 7 a9, push_bit 1 a9 OR drop_bit 7 a10,
    push_bit 1 a10 OR drop_bit 7 a11, push_bit 1 a11 OR drop_bit 7 a12,
    push_bit 1 a12 OR drop_bit 7 a13, push_bit 1 a13 OR drop_bit 7 a14,
    push_bit 1 a14 OR drop_bit 7 a15,
    (push_bit 1 a15 AND 0xFE) XOR (if a0 AND 0x80 \<noteq> 0 then 0x87 else 0)]"
  by (simp add: double_block_def upt15 Let_def)

lemma xor_bytes1x16_explicit:
  "xor_bytes1x16 [a0, a1, a2, a3, a4, a5, a6, a7, a8, a9, a10, a11, a12, a13, a14, a15]
                 [b0, b1, b2, b3, b4, b5, b6, b7, b8, b9, b10, b11, b12, b13, b14, b15] =
   [a0 XOR b0, a1 XOR b1, a2 XOR b2, a3 XOR b3, a4 XOR b4, a5 XOR b5, a6 XOR b6, a7 XOR b7,
    a8 XOR b8, a9 XOR b9, a10 XOR b10, a11 XOR b11, a12 XOR b12, a13 XOR b13, a14 XOR b14,
    a15 XOR b15]"
  by (simp add: xor_bytes1x16_def BLOCK_SIZE_def upt16)

lemma double_block_zero: "double_block ZERO_BLOCK = ZERO_BLOCK"
proof -
  have z: "ZERO_BLOCK = [0, 0, 0, 0, 0, 0, 0, 0, 0, 0, 0, 0, 0, 0, 0, 0]"
    by (simp add: ZERO_BLOCK_def mk_block_def BLOCK_SIZE_def eval_nat_numeral)
  show ?thesis
    unfolding z double_block_explicit by simp
qed

lemma double_block_xor:
  assumes "length a = 16" and "length b = 16"
  shows "double_block (xor_bytes1x16 a b) = xor_bytes1x16 (double_block a) (double_block b)"
proof -
  obtain a0 a1 a2 a3 a4 a5 a6 a7 a8 a9 a10 a11 a12 a13 a14 a15
    where a: "a = [a0, a1, a2, a3, a4, a5, a6, a7, a8, a9, a10, a11, a12, a13, a14, a15]"
    using assms(1) by (rule block16_cases)
  obtain b0 b1 b2 b3 b4 b5 b6 b7 b8 b9 b10 b11 b12 b13 b14 b15
    where b: "b = [b0, b1, b2, b3, b4, b5, b6, b7, b8, b9, b10, b11, b12, b13, b14, b15]"
    using assms(2) by (rule block16_cases)
  show ?thesis
    unfolding a b xor_bytes1x16_explicit double_block_explicit
    by (simp only: shl_or_xor last_byte_xor)
qed

text \<open>
  Claim C7. \<^verbatim>\<open>_double_block\<close> maps the all-zero 16-byte block to the all-zero block,
  and it is linear over GF(2): for all 16-byte blocks \<open>a\<close> and \<open>b\<close>, doubling the bytewise
  XOR of \<open>a\<close> and \<open>b\<close> gives the bytewise XOR of the doubled blocks.
\<close>

theorem double_block_linear:
  "double_block ZERO_BLOCK = ZERO_BLOCK \<and>
   (\<forall>a b. length a = 16 \<and> length b = 16 \<longrightarrow>
      double_block (xor_bytes1x16 a b) = xor_bytes1x16 (double_block a) (double_block b))"
  using double_block_zero double_block_xor by blast

theorem double_block_linear_witness:
  "length [1, 2, 3, 4, 5, 6, 7, 8, 9, 10, 11, 12, 13, 14, 15, 16 :: byte] = 16 \<and>
   length [128, 0, 0, 0, 0, 0, 0, 0, 0, 0, 0, 0, 0, 0, 0, 255 :: byte] = 16 \<and>
   double_block (xor_bytes1x16 [1, 2, 3, 4, 5, 6, 7, 8, 9, 10, 11, 12, 13, 14, 15, 16]
                               [128, 0, 0, 0, 0, 0, 0, 0, 0, 0, 0, 0, 0, 0, 0, 255])
   = xor_bytes1x16 (double_block [1, 2, 3, 4, 5, 6, 7, 8, 9, 10, 11, 12, 13, 14, 15, 16])
                   (double_block [128, 0, 0, 0, 0, 0, 0, 0, 0, 0, 0, 0, 0, 0, 0, 255])"
  using double_block_linear by simp

section \<open>The key schedule after init\<close>

lemma wf_state_new: "wf_state AEZState_new"
  by (simp add: wf_state_def AEZState_new_def ZERO_BLOCK_def upt_rec)

lemma map_zero_ZERO_BLOCK: "map (\<lambda>_. 0) ZERO_BLOCK = ZERO_BLOCK"
  by (simp add: ZERO_BLOCK_def mk_block_def)

lemma wf_state_reset: "wf_state st \<Longrightarrow> wf_state (reset st)"
  by (simp add: wf_state_def reset_def map_zero_ZERO_BLOCK)

lemma wf_state_init: "wf_state st \<Longrightarrow> wf_state (init blake2b key st)"
  by (simp add: wf_state_def init_def Let_def)

lemma reachable_wf_state: "reachable blake2b st \<Longrightarrow> wf_state st"
  by (induction rule: reachable.induct) (simp_all add: wf_state_new wf_state_reset wf_state_init)

lemma length_py_slice: "b \<le> length xs \<Longrightarrow> length (py_slice xs a b) = b - a"
  by (simp add: py_slice_def)

lemma init_blocks:
  assumes wf: "wf_state st" and len: "length (extract_key blake2b key) = 48"
  shows "I (init blake2b key st) =
           [py_slice (extract_key blake2b key) 0 16,
            double_block (py_slice (extract_key blake2b key) 0 16)]"
    and "J (init blake2b key st) =
           [py_slice (extract_key blake2b key) 16 32,
            double_block (py_slice (extract_key blake2b key) 16 32),
            double_block (double_block (py_slice (extract_key blake2b key) 16 32))]"
proof -
  obtain i0 i1 where I: "I st = [i0, i1]"
    using wf by (auto simp: wf_state_def eval_nat_numeral length_Suc_conv)
  obtain j0 j1 j2 where J: "J st = [j0, j1, j2]"
    using wf by (auto simp: wf_state_def eval_nat_numeral length_Suc_conv)
  show "I (init blake2b key st) =
           [py_slice (extract_key blake2b key) 0 16,
            double_block (py_slice (extract_key blake2b key) 0 16)]"
    using len by (simp add: init_def Let_def I mult_block_2 length_py_slice)
  show "J (init blake2b key st) =
           [py_slice (extract_key blake2b key) 16 32,
            double_block (py_slice (extract_key blake2b key) 16 32),
            double_block (double_block (py_slice (extract_key blake2b key) 16 32))]"
    using len by (simp add: init_def Let_def J mult_block_2 length_py_slice)
qed

lemma init_L:
  assumes wf: "wf_state st" and len: "length (extract_key blake2b key) = 48"
  shows "L (init blake2b key st) =
          (let l1 = py_slice (extract_key blake2b key) 32 48;
               l2 = double_block l1;
               l3 = xor_bytes1x16 l2 l1;
               l4 = double_block l2;
               l5 = xor_bytes1x16 l4 l1;
               l6 = double_block l3;
               l7 = xor_bytes1x16 l6 l1
           in [ZERO_BLOCK, l1, l2, l3, l4, l5, l6, l7])"
proof -
  obtain l0 l1 l2 l3 l4 l5 l6 l7 where L: "L st = [l0, l1, l2, l3, l4, l5, l6, l7]"
    using wf by (auto simp: wf_state_def eval_nat_numeral length_Suc_conv)
  have l0: "l0 = ZERO_BLOCK" using wf by (simp add: wf_state_def L)
  show ?thesis
    using len by (simp add: init_def Let_def L l0 mult_block_2 length_py_slice)
qed

text \<open>
  Claim C5. For every key, after \<^verbatim>\<open>init(key)\<close> on a state the module can build, with
  \<open>extracted\<close> the 48-byte extracted key (the key itself if it has 48 bytes, else its
  BLAKE2b digest): \<open>I[0]\<close>, \<open>J[0]\<close> and \<open>L[1]\<close> are the three 16-byte parts of
  \<open>extracted\<close>; \<open>I[1]\<close>, \<open>J[1]\<close>, \<open>J[2]\<close>, \<open>L[2]\<close>, \<open>L[4]\<close> and \<open>L[6]\<close> are the
  doublings, and \<open>L[3]\<close>, \<open>L[5]\<close>, \<open>L[7]\<close> the XORs with \<open>L[1]\<close>, that the claim lists;
  \<open>L[0]\<close> is the zero block; and \<^verbatim>\<open>_mult_block(2, src, dst)\<close> is one application of
  \<^verbatim>\<open>_double_block\<close> on a 16-byte block.
\<close>

theorem init_key_schedule:
  assumes "reachable blake2b st" and "length (extract_key blake2b key) = 48"
  shows "(let extracted = extract_key blake2b key; st' = init blake2b key st
          in I st' ! 0 = py_slice extracted 0 16 \<and>
             I st' ! 1 = double_block (I st' ! 0) \<and>
             J st' ! 0 = py_slice extracted 16 32 \<and>
             J st' ! 1 = double_block (J st' ! 0) \<and>
             J st' ! 2 = double_block (J st' ! 1) \<and>
             L st' ! 0 = ZERO_BLOCK \<and>
             L st' ! 1 = py_slice extracted 32 48 \<and>
             L st' ! 2 = double_block (L st' ! 1) \<and>
             L st' ! 3 = xor_bytes1x16 (L st' ! 2) (L st' ! 1) \<and>
             L st' ! 4 = double_block (L st' ! 2) \<and>
             L st' ! 5 = xor_bytes1x16 (L st' ! 4) (L st' ! 1) \<and>
             L st' ! 6 = double_block (L st' ! 3) \<and>
             L st' ! 7 = xor_bytes1x16 (L st' ! 6) (L st' ! 1)) \<and>
         (\<forall>src. length src = 16 \<longrightarrow> mult_block 2 src = double_block src)"
proof -
  have wf: "wf_state st" using assms(1) by (rule reachable_wf_state)
  show ?thesis
    unfolding Let_def init_blocks[OF wf assms(2)] init_L[OF wf assms(2)]
    by (simp add: mult_block_2)
qed

theorem init_key_schedule_witness:
  "reachable (\<lambda>k. []) AEZState_new \<and>
   length (extract_key (\<lambda>k. []) (replicate 48 7)) = 48 \<and>
   (let extracted = extract_key (\<lambda>k. []) (replicate 48 7);
        st' = init (\<lambda>k. []) (replicate 48 7) AEZState_new
    in I st' ! 0 = py_slice extracted 0 16 \<and>
       I st' ! 1 = double_block (I st' ! 0) \<and>
       J st' ! 0 = py_slice extracted 16 32 \<and>
       J st' ! 1 = double_block (J st' ! 0) \<and>
       J st' ! 2 = double_block (J st' ! 1) \<and>
       L st' ! 0 = ZERO_BLOCK \<and>
       L st' ! 1 = py_slice extracted 32 48 \<and>
       L st' ! 2 = double_block (L st' ! 1) \<and>
       L st' ! 3 = xor_bytes1x16 (L st' ! 2) (L st' ! 1) \<and>
       L st' ! 4 = double_block (L st' ! 2) \<and>
       L st' ! 5 = xor_bytes1x16 (L st' ! 4) (L st' ! 1) \<and>
       L st' ! 6 = double_block (L st' ! 3) \<and>
       L st' ! 7 = xor_bytes1x16 (L st' ! 6) (L st' ! 1)) \<and>
   mult_block 2 (replicate 16 1) = double_block (replicate 16 1)"
proof -
  have r: "reachable (\<lambda>k. []) AEZState_new" by (rule reachable_new)
  have h: "length (extract_key (\<lambda>k. []) (replicate 48 7)) = 48"
    by (simp add: extract_key_def EXTRACTED_KEY_SIZE_def BLOCK_SIZE_def)
  have l: "length (replicate 16 (1::byte)) = 16" by simp
  show ?thesis
    using init_key_schedule[OF r h] r h l by blast
qed

section \<open>The writes of aez-core\<close>

declare pass1_loop.simps [simp del] pass2_loop.simps [simp del]

lemma length_slice_assign:
  "a \<le> b \<Longrightarrow> b \<le> length xs \<Longrightarrow> length v = b - a \<Longrightarrow> length (slice_assign xs a b v) = length xs"
  by (simp add: slice_assign_def)

lemma drop_slice_assign:
  "a \<le> b \<Longrightarrow> b \<le> length xs \<Longrightarrow> length v = b - a \<Longrightarrow> b \<le> d
     \<Longrightarrow> drop d (slice_assign xs a b v) = drop d xs"
  by (simp add: slice_assign_def)

lemma frame_arith:
  assumes "(64::nat) \<le> remaining"
  shows "offset + remaining - 32 - remaining mod 32
           = (offset + 32) + (remaining - 32) - 32 - (remaining - 32) mod 32"
    and "offset + 32 \<le> offset + remaining - 32 - remaining mod 32"
proof -
  have m1: "remaining mod 32 = (remaining - 32) mod 32"
    using assms by (simp add: le_mod_geq)
  have "(remaining - 32) mod 32 = (remaining - 32 - 32) mod 32"
    using assms by (simp add: le_mod_geq)
  then have m2: "remaining mod 32 = (remaining - 64) mod 32"
    using m1 by simp
  have le: "remaining mod 32 \<le> remaining - 64"
    unfolding m2 by (rule mod_less_eq_dividend)
  show "offset + remaining - 32 - remaining mod 32
           = (offset + 32) + (remaining - 32) - 32 - (remaining - 32) mod 32"
    using assms m1 by simp
  show "offset + 32 \<le> offset + remaining - 32 - remaining mod 32"
    using assms le by simp
qed

lemma pass1_loop_frame:
  assumes "offset + remaining \<le> length out"
  shows "length (fst (pass1_loop a st input_bytes offset remaining i I_tmp out X)) = length out \<and>
         drop (offset + remaining - 32 - remaining mod 32)
              (fst (pass1_loop a st input_bytes offset remaining i I_tmp out X))
         = drop (offset + remaining - 32 - remaining mod 32) out"
  using assms
proof (induction remaining arbitrary: offset i I_tmp out X rule: less_induct)
  case (less remaining)
  show ?case
  proof (cases "64 \<le> remaining")
    case False
    then show ?thesis by (subst pass1_loop.simps, subst (2) pass1_loop.simps) simp
  next
    case True
    define first_out where "first_out = xor_bytes1x16 (py_slice input_bytes offset (offset + BLOCK_SIZE))
       (AES4 a (J st ! 0) I_tmp (L st ! (i mod 8))
          (py_slice input_bytes (offset + BLOCK_SIZE) (offset + BLOCK_SIZE * 2)))"
    define second_out where "second_out = xor_bytes1x16
       (py_slice input_bytes (offset + BLOCK_SIZE) (offset + BLOCK_SIZE * 2))
       (AES4 a ZERO_BLOCK (I st ! 0) (L st ! 0) first_out)"
    define output0 where "output0 = slice_assign out offset (offset + BLOCK_SIZE) first_out"
    define output1 where "output1 = slice_assign output0
       (offset + BLOCK_SIZE) (offset + BLOCK_SIZE * 2) second_out"
    define I1 where "I1 = (if (i + 1) mod 8 = 0 then double_block I_tmp else I_tmp)"
    define D where "D = offset + remaining - 32 - remaining mod 32"
    have step: "pass1_loop a st input_bytes offset remaining i I_tmp out X
       = pass1_loop a st input_bytes (offset + 32) (remaining - 32) (i + 1) I1 output1
           (xor_bytes1x16 second_out X)"
      using True
      by (subst pass1_loop.simps)
         (simp add: Let_def first_out_def second_out_def output1_def output0_def I1_def)
    have lf: "length first_out = 16" and ls: "length second_out = 16"
      by (simp_all add: first_out_def second_out_def)
    have len0: "length output0 = length out"
      using True less.prems lf by (simp add: output0_def length_slice_assign BLOCK_SIZE_def)
    have len1: "length output1 = length out"
      using True less.prems ls len0 by (simp add: output1_def length_slice_assign BLOCK_SIZE_def)
    have D': "D = (offset + 32) + (remaining - 32) - 32 - (remaining - 32) mod 32"
      and ge: "offset + 32 \<le> D"
      unfolding D_def using frame_arith[OF True] by simp_all
    have "drop D output1 = drop D output0"
      using True less.prems ge ls len0 by (simp add: output1_def drop_slice_assign BLOCK_SIZE_def)
    also have "\<dots> = drop D out"
      using True less.prems ge lf by (simp add: output0_def drop_slice_assign BLOCK_SIZE_def)
    finally have drop1: "drop D output1 = drop D out" .
    have lt: "remaining - 32 < remaining" using True by simp
    have pre: "(offset + 32) + (remaining - 32) \<le> length output1"
      using True less.prems len1 by simp
    note IH = less.IH[OF lt pre, where i = "i + 1" and I_tmp = I1 and X = "xor_bytes1x16 second_out X",
        folded D']
    show ?thesis
      unfolding step D_def[symmetric] using IH len1 drop1 by simp
  qed
qed


lemma pass2_loop_frame:
  assumes "offset + remaining \<le> length out"
  shows "length (fst (pass2_loop a st offset remaining i I_tmp out Y S)) = length out \<and>
         drop (offset + remaining - 32 - remaining mod 32)
              (fst (pass2_loop a st offset remaining i I_tmp out Y S))
         = drop (offset + remaining - 32 - remaining mod 32) out"
  using assms
proof (induction remaining arbitrary: offset i I_tmp out Y rule: less_induct)
  case (less remaining)
  show ?case
  proof (cases "64 \<le> remaining")
    case False
    then show ?thesis by (subst pass2_loop.simps, subst (2) pass2_loop.simps) simp
  next
    case True
    define tmp where "tmp = AES4 a (J st ! 1) I_tmp (L st ! (i mod 8)) S"
    define f1 where "f1 = xor_bytes1x16 (py_slice out offset (offset + BLOCK_SIZE)) tmp"
    define s1 where "s1 = xor_bytes1x16
       (py_slice out (offset + BLOCK_SIZE) (offset + BLOCK_SIZE * 2)) tmp"
    define f2 where "f2 = xor_bytes1x16 f1 (AES4 a ZERO_BLOCK (I st ! 0) (L st ! 0) s1)"
    define s2 where "s2 = xor_bytes1x16 s1 (AES4 a (J st ! 0) I_tmp (L st ! (i mod 8)) f2)"
    define output0 where "output0 = slice_assign out offset (offset + BLOCK_SIZE) s2"
    define output1 where "output1 = slice_assign output0
       (offset + BLOCK_SIZE) (offset + BLOCK_SIZE * 2) f2"
    define I1 where "I1 = (if (i + 1) mod 8 = 0 then double_block I_tmp else I_tmp)"
    define D where "D = offset + remaining - 32 - remaining mod 32"
    have step: "pass2_loop a st offset remaining i I_tmp out Y S
       = pass2_loop a st (offset + 32) (remaining - 32) (i + 1) I1 output1
           (xor_bytes1x16 f1 Y) S"
      using True
      by (subst pass2_loop.simps)
         (simp add: Let_def tmp_def f1_def s1_def f2_def s2_def output1_def output0_def I1_def)
    have lf: "length f2 = 16" and ls: "length s2 = 16"
      by (simp_all add: f2_def s2_def)
    have len0: "length output0 = length out"
      using True less.prems ls by (simp add: output0_def length_slice_assign BLOCK_SIZE_def)
    have len1: "length output1 = length out"
      using True less.prems lf len0 by (simp add: output1_def length_slice_assign BLOCK_SIZE_def)
    have D': "D = (offset + 32) + (remaining - 32) - 32 - (remaining - 32) mod 32"
      and ge: "offset + 32 \<le> D"
      unfolding D_def using frame_arith[OF True] by simp_all
    have "drop D output1 = drop D output0"
      using True less.prems ge lf len0 by (simp add: output1_def drop_slice_assign BLOCK_SIZE_def)
    also have "\<dots> = drop D out"
      using True less.prems ge ls by (simp add: output0_def drop_slice_assign BLOCK_SIZE_def)
    finally have drop1: "drop D output1 = drop D out" .
    have lt: "remaining - 32 < remaining" using True by simp
    have pre: "(offset + 32) + (remaining - 32) \<le> length output1"
      using True less.prems len1 by simp
    note IH = less.IH[OF lt pre, where i = "i + 1" and I_tmp = I1 and Y = "xor_bytes1x16 f1 Y",
        folded D']
    show ?thesis
      unfolding step D_def[symmetric] using IH len1 drop1 by simp
  qed
qed

lemma aez_core_frame_aux:
  assumes a: "aes st = Some a" and len: "length dst = length data"
  shows "\<exists>dst'. aez_core st delta data direction dst = Inr dst' \<and>
           length dst' = length dst \<and>
           drop (length data - 32 - length data mod 32) dst'
             = drop (length data - 32 - length data mod 32) dst \<and>
           (length data < 64 \<longrightarrow> dst' = dst)"
proof (cases "64 \<le> length data")
  case False
  then show ?thesis
    by (simp add: aez_core_def aez_core_locals_def a Let_def split: prod.splits)
next
  case True
  have p1: "length (fst (pass1_loop a st data 0 (length data) 1 (I st ! 1) dst X)) = length dst \<and>
            drop (length data - 32 - length data mod 32)
              (fst (pass1_loop a st data 0 (length data) 1 (I st ! 1) dst X))
            = drop (length data - 32 - length data mod 32) dst" for X
    using pass1_loop_frame[of 0 "length data" dst a st data 1 "I st ! 1" X] len by simp
  have p2: "length d = length data \<Longrightarrow>
            length (fst (pass2_loop a st 0 (length data) 1 (I st ! 1) d Y S)) = length d \<and>
            drop (length data - 32 - length data mod 32)
              (fst (pass2_loop a st 0 (length data) 1 (I st ! 1) d Y S))
            = drop (length data - 32 - length data mod 32) d" for d Y S
    using pass2_loop_frame[of 0 "length data" d a st 1 "I st ! 1" Y S] by simp
  obtain d1 X1 where P1:
    "pass1_loop a st data 0 (length data) 1 (I st ! 1) dst (mk_block BLOCK_SIZE) = (d1, X1)"
    by fastforce
  obtain dt S where FP:
    "core_final_pair a st delta direction data d1
       (core_tail_X a st (length data mod 32)
          (drop (length data - length data mod 32 - 32) data) X1) = (dt, S)"
    by fastforce
  obtain d2 Y2 where P2:
    "pass2_loop a st 0 (length data) 1 (I st ! 1) d1 (mk_block BLOCK_SIZE) S = (d2, Y2)"
    by fastforce
  have res: "aez_core st delta data direction dst = Inr d2"
    using True P1 FP P2
    by (simp add: aez_core_def aez_core_locals_def aez_core_pass1_def aez_core_pass2_def a
        Let_def split: prod.splits)
  have d1: "d1 = fst (pass1_loop a st data 0 (length data) 1 (I st ! 1) dst (mk_block BLOCK_SIZE))"
    using P1 by simp
  have d2: "d2 = fst (pass2_loop a st 0 (length data) 1 (I st ! 1) d1 (mk_block BLOCK_SIZE) S)"
    using P2 by simp
  have l1: "length d1 = length data"
    unfolding d1 using p1[of "mk_block BLOCK_SIZE"] len by simp
  have "length d2 = length dst \<and>
        drop (length data - 32 - length data mod 32) d2
          = drop (length data - 32 - length data mod 32) dst"
    using p1[of "mk_block BLOCK_SIZE"] p2[OF l1, of "mk_block BLOCK_SIZE" S] len l1
    unfolding d1[symmetric] d2[symmetric] by simp
  then show ?thesis
    using res True by simp
qed

lemma aes_init: "aes (init blake2b key st) = Some (AESRound_init (extract_key blake2b key))"
  by (simp add: init_def Let_def)

lemma aez_hash_Inr: "aes st = Some a \<Longrightarrow> \<exists>delta. aez_hash st nonce ad tau = Inr delta"
  by (simp add: aez_hash_def Let_def)


text \<open>
  Claim C8. For every input of at least 32 bytes and a destination buffer of the same
  length, in both directions, \<^verbatim>\<open>aez_core\<close> changes \<open>dst\<close> only below index
  \<open>|data| - 32 - |data| mod 32\<close>: the buffer keeps its length and its final
  \<open>32 + |data| mod 32\<close> bytes, and for fewer than 64 bytes it is left entirely unchanged.
  The call raises only on a state without a key schedule, and on a state with one it returns.
\<close>

theorem aez_core_frame:
  assumes "32 \<le> length data" and "length dst = length data"
  shows "(case aez_core st delta data direction dst of
            Inl e \<Rightarrow> aes st = None
          | Inr dst' \<Rightarrow>
              length dst' = length dst \<and>
              drop (length data - 32 - length data mod 32) dst'
                = drop (length data - 32 - length data mod 32) dst \<and>
              (length data < 64 \<longrightarrow> dst' = dst)) \<and>
         (aes st \<noteq> None \<longrightarrow> (\<exists>dst'. aez_core st delta data direction dst = Inr dst'))"
proof (cases "aes st")
  case None
  then show ?thesis
    by (simp add: aez_core_def aez_core_locals_def)
next
  case (Some a)
  from aez_core_frame_aux[OF Some assms(2), of delta direction]
  show ?thesis using Some by auto
qed

theorem aez_core_frame_witness:
  "32 \<le> length (replicate 70 (1 :: byte)) \<and>
   length (replicate 70 (0 :: byte)) = length (replicate 70 (1 :: byte)) \<and>
   (case aez_core (init (\<lambda>k. []) (replicate 48 0) (reset AEZState_new)) ZERO_BLOCK
           (replicate 70 1) 1 (replicate 70 0) of
      Inl e \<Rightarrow> False
    | Inr dst' \<Rightarrow> length dst' = 70 \<and> drop 32 dst' = replicate 38 0)"
proof -
  have h1: "32 \<le> length (replicate 70 (1 :: byte))" by simp
  have h2: "length (replicate 70 (0 :: byte)) = length (replicate 70 (1 :: byte))" by simp
  show ?thesis
    using aez_core_frame[OF h1 h2, of "init (\<lambda>k. []) (replicate 48 0) (reset AEZState_new)"
        ZERO_BLOCK 1]
    by (auto simp: aes_init split: sum.splits)
qed


section \<open>Long ciphertexts at the decrypt driver\<close>

lemma tag_or_zero:
  "(\<And>i. i \<in> set is \<Longrightarrow> base + i < length x \<and> x ! (base + i) = 0)
     \<Longrightarrow> tag_or x (int base) is m = Inr m"
proof (induction "is" arbitrary: m)
  case Nil
  then show ?case by simp
next
  case (Cons i "is")
  have "base + i < length x" and "x ! (base + i) = 0"
    using Cons.prems[of i] by simp_all
  then have "py_index x (int base + int i) = Inr 0"
    by (simp add: py_index_def nat_add_distrib)
  then show ?case
    using Cons by simp
qed


lemma aez_core_zero_buffer:
  assumes a: "aes st = Some a"
  shows "\<exists>x. aez_core st delta ciphertext 1 (replicate (length ciphertext) 0) = Inr x \<and>
             length x = length ciphertext \<and>
             drop (length ciphertext - 32 - length ciphertext mod 32) x
               = drop (length ciphertext - 32 - length ciphertext mod 32)
                   (replicate (length ciphertext) 0)"
  using aez_core_frame_aux[OF a, of "replicate (length ciphertext) 0" ciphertext delta 1]
  by auto

lemma aez_decrypt_decipher_branch:
  assumes "length ciphertext \<noteq> tau"
    and "aez_hash (init blake2b key (reset AEZState_new)) None ad (tau * 8) = Inr delta"
    and "decipher (init blake2b key (reset AEZState_new)) delta ciphertext
           (replicate (length ciphertext) 0) = Inr x"
    and "tag_or x (int (length ciphertext) - int tau) [0..<tau] 0 = Inr mismatch"
  shows "aez_decrypt blake2b key ad tau ciphertext =
           (if mismatch \<noteq> 0 then Inr None
            else Inr (Some (py_slice_to x (int (length ciphertext) - int tau))))"
  using assms by (simp add: aez_decrypt_def Let_def)

text \<open>
  Claim C9. For every key, every list of associated data and every ciphertext of at
  least 32 bytes, \<^verbatim>\<open>_aez_decrypt(key, ad, 4, C)\<close> does not return \<^verbatim>\<open>None\<close> (and does
  not raise): it returns a byte string of length \<open>|C| - 4\<close>.
\<close>

theorem aez_decrypt_long_never_fails:
  assumes "32 \<le> length ciphertext"
  shows "\<exists>p. aez_decrypt blake2b key ad 4 ciphertext = Inr (Some p) \<and>
             length p = length ciphertext - 4"
proof -
  let ?st = "init blake2b key (reset AEZState_new)"
  let ?n = "length ciphertext"
  let ?D = "?n - 32 - ?n mod 32"
  have a: "aes ?st = Some (AESRound_init (extract_key blake2b key))"
    by (rule aes_init)
  obtain delta where h: "aez_hash ?st None ad (4 * 8) = Inr delta"
    using aez_hash_Inr[OF a] by blast
  obtain x where x: "aez_core ?st delta ciphertext 1 (replicate ?n 0) = Inr x"
    and lx: "length x = ?n" and dx: "drop ?D x = drop ?D (replicate ?n 0)"
    using aez_core_zero_buffer[OF a, of delta ciphertext] by blast
  have dec: "decipher ?st delta ciphertext (replicate ?n 0) = Inr x"
    using assms x by (auto simp: decipher_def)
  have zero: "x ! k = 0" if "?D \<le> k" and "k < ?n" for k
  proof -
    have "x ! k = drop ?D x ! (k - ?D)" using that lx by simp
    also have "\<dots> = 0" unfolding dx using that by simp
    finally show ?thesis .
  qed
  have tz: "tag_or x (int (?n - 4)) [0..<4] 0 = Inr 0"
  proof (rule tag_or_zero)
    fix i assume "i \<in> set [0..<4]"
    then have i: "i < 4" by simp
    have 1: "?D \<le> ?n - 4 + i" using assms by simp
    have 2: "?n - 4 + i < ?n" using assms i by simp
    show "?n - 4 + i < length x \<and> x ! (?n - 4 + i) = 0"
      using zero[OF 1 2] 2 lx by simp
  qed
  have eq: "int ?n - int 4 = int (?n - 4)" using assms by simp
  have tag: "tag_or x (int ?n - int 4) [0..<4] 0 = Inr 0"
    unfolding eq by (rule tz)
  have ne: "?n \<noteq> 4" using assms by simp
  have "aez_decrypt blake2b key ad 4 ciphertext = Inr (Some (py_slice_to x (int ?n - int 4)))"
    using aez_decrypt_decipher_branch[OF ne h dec tag] by simp
  moreover have "length (py_slice_to x (int ?n - int 4)) = ?n - 4"
    using assms lx by (simp add: py_slice_to_def)
  ultimately show ?thesis by blast
qed

theorem aez_decrypt_long_never_fails_witness:
  "32 \<le> length (replicate 40 (255 :: byte)) \<and>
   (\<exists>p. aez_decrypt (\<lambda>k. []) (replicate 48 7) [[0, 1, 2, 3, 4, 5]] 4 (replicate 40 255) = Inr (Some p) \<and>
        length p = 36)"
proof -
  have h: "32 \<le> length (replicate 40 (255 :: byte))" by simp
  show ?thesis
    using aez_decrypt_long_never_fails[OF h, of "\<lambda>k. []" "replicate 48 7" "[[0, 1, 2, 3, 4, 5]]"]
    by simp
qed

section \<open>Packing a mnemonic\<close>

declare emit_loop.simps [simp del]

lemma emit_loop_done:
  "bit_len < 8 \<Longrightarrow> emit_loop bits bit_len out pos = Inr (bits, bit_len, out, pos)"
  by (subst emit_loop.simps) simp

lemma emit_loop_step:
  "8 \<le> bit_len \<Longrightarrow> pos < length out \<Longrightarrow>
   emit_loop bits bit_len out pos =
     emit_loop (bits AND (if bit_len - 8 \<noteq> 0 then push_bit (bit_len - 8) 1 - 1 else 0))
       (bit_len - 8) (out[pos := word_of_int (drop_bit (bit_len - 8) bits AND 0xFF)]) (pos + 1)"
  by (subst emit_loop.simps) (simp add: Let_def)

lemma emit_loop_total:
  assumes "length out = 33" and "8 * pos + bit_len \<le> 264"
  shows "\<exists>bits' bl' out' pos'.
           emit_loop bits bit_len out pos = Inr (bits', bl', out', pos') \<and>
           length out' = 33 \<and> bl' < 8 \<and> 8 * pos' + bl' = 8 * pos + bit_len"
  using assms
proof (induction bit_len arbitrary: bits out pos rule: less_induct)
  case (less bit_len)
  show ?case
  proof (cases "8 \<le> bit_len")
    case False
    then show ?thesis using less.prems by (simp add: emit_loop_done)
  next
    case True
    have pos: "pos < length out" using True less.prems by simp
    have lt: "bit_len - 8 < bit_len" using True by simp
    have l': "length (out[pos := word_of_int (drop_bit (bit_len - 8) bits AND 0xFF)]) = 33"
      using less.prems by simp
    have b': "8 * (pos + 1) + (bit_len - 8) \<le> 264" using True less.prems by simp
    from less.IH[OF lt l' b',
        of "bits AND (if bit_len - 8 \<noteq> 0 then push_bit (bit_len - 8) 1 - 1 else 0)"]
    obtain bits' bl' out' pos' where
      "emit_loop (bits AND (if bit_len - 8 \<noteq> 0 then push_bit (bit_len - 8) 1 - 1 else 0))
         (bit_len - 8) (out[pos := word_of_int (drop_bit (bit_len - 8) bits AND 0xFF)]) (pos + 1)
       = Inr (bits', bl', out', pos')"
      and "length out' = 33" and "bl' < 8"
      and "8 * pos' + bl' = 8 * (pos + 1) + (bit_len - 8)"
      by blast
    then show ?thesis
      using True pos by (simp add: emit_loop_step)
  qed
qed

lemma pack_loop_known:
  assumes "\<forall>w \<in> set ws. word_to_index w \<noteq> None"
    and "length out = 33" and "bit_len < 8"
    and "8 * pos + bit_len + 11 * length ws \<le> 264"
  shows "\<exists>out'. pack_loop word_to_index ws bits bit_len out pos = Inr out' \<and> length out' = 33"
  using assms
proof (induction ws arbitrary: bits bit_len out pos)
  case Nil
  then show ?case by simp
next
  case (Cons w ws)
  obtain idx where idx: "word_to_index w = Some idx" using Cons.prems(1) by auto
  have b: "8 * pos + (bit_len + 11) \<le> 264" using Cons.prems(4) by simp
  from emit_loop_total[OF Cons.prems(2) b, of "push_bit 11 bits OR idx"]
  obtain bits' bl' out' pos' where
    e: "emit_loop (push_bit 11 bits OR idx) (bit_len + 11) out pos = Inr (bits', bl', out', pos')"
    and l: "length out' = 33" and bl: "bl' < 8"
    and s: "8 * pos' + bl' = 8 * pos + (bit_len + 11)"
    by blast
  have k: "\<forall>w \<in> set ws. word_to_index w \<noteq> None" using Cons.prems(1) by simp
  have b': "8 * pos' + bl' + 11 * length ws \<le> 264" using s Cons.prems(4) by simp
  from Cons.IH[OF k l bl b', of bits']
  show ?case using idx e by (simp add: BitsPerWord_def)
qed

lemma pack_loop_unknown:
  assumes "\<exists>w \<in> set ws. word_to_index w = None"
    and "length out = 33" and "bit_len < 8"
    and "8 * pos + bit_len + 11 * length ws \<le> 264"
  shows "\<exists>msg. pack_loop word_to_index ws bits bit_len out pos = Inl (InvalidMnemonicError msg)"
  using assms
proof (induction ws arbitrary: bits bit_len out pos)
  case Nil
  then show ?case by simp
next
  case (Cons w ws)
  show ?case
  proof (cases "word_to_index w")
    case None
    then show ?thesis by simp
  next
    case (Some idx)
    have b: "8 * pos + (bit_len + 11) \<le> 264" using Cons.prems(4) by simp
    from emit_loop_total[OF Cons.prems(2) b, of "push_bit 11 bits OR idx"]
    obtain bits' bl' out' pos' where
      e: "emit_loop (push_bit 11 bits OR idx) (bit_len + 11) out pos = Inr (bits', bl', out', pos')"
      and l: "length out' = 33" and bl: "bl' < 8"
      and s: "8 * pos' + bl' = 8 * pos + (bit_len + 11)"
      by blast
    have k: "\<exists>w \<in> set ws. word_to_index w = None" using Cons.prems(1) Some by auto
    have b': "8 * pos' + bl' + 11 * length ws \<le> 264" using s Cons.prems(4) by simp
    from Cons.IH[OF k l bl b', of bits']
    show ?thesis using Some e by (simp add: BitsPerWord_def)
  qed
qed

lemma mnemonic_to_bytes_ok:
  assumes "length ws = 24" and "\<forall>w \<in> set ws. word_to_index w \<noteq> None"
  shows "\<exists>env. mnemonic_to_bytes ws word_to_index = Inr env \<and> length env = 33"
  using pack_loop_known[OF assms(2), of "replicate 33 0" 0 0 0] assms(1)
  by (simp add: mnemonic_to_bytes_def EncipheredCipherSeedSize_def)

lemma mnemonic_to_bytes_fail:
  assumes "length ws \<noteq> 24 \<or> (\<exists>w \<in> set ws. word_to_index w = None)"
  shows "\<exists>msg. mnemonic_to_bytes ws word_to_index = Inl (InvalidMnemonicError msg)"
proof (cases "length ws = 24")
  case False
  then show ?thesis by (simp add: mnemonic_to_bytes_def)
next
  case True
  then have u: "\<exists>w \<in> set ws. word_to_index w = None" using assms by simp
  show ?thesis
    using pack_loop_unknown[OF u, of "replicate 33 0" 0 0 0] True
    by (simp add: mnemonic_to_bytes_def EncipheredCipherSeedSize_def)
qed

lemma mnemonic_to_bytes_Inr_iff:
  "(\<exists>env. mnemonic_to_bytes ws word_to_index = Inr env) \<longleftrightarrow>
     length ws = 24 \<and> (\<forall>w \<in> set ws. word_to_index w \<noteq> None)"
  using mnemonic_to_bytes_ok[of ws word_to_index] mnemonic_to_bytes_fail[of ws word_to_index]
  by (metis Inl_Inr_False)

lemma mnemonic_to_bytes_length:
  "mnemonic_to_bytes ws word_to_index = Inr env \<Longrightarrow> length env = 33"
  using mnemonic_to_bytes_ok[of ws word_to_index] mnemonic_to_bytes_Inr_iff[of ws word_to_index]
  by (metis Inr_inject)

lemma crc32c_table_entry_7: "crc32c_table_entry 7 = 3570033899"
  by (simp add: crc32c_table_entry_def crc32c_bit_step_def CRC32C_POLY_def eval_nat_numeral)

lemma crc32c_table_entry_14: "crc32c_table_entry 14 = 2893594407"
  by (simp add: crc32c_table_entry_def crc32c_bit_step_def CRC32C_POLY_def eval_nat_numeral)

lemma crc32c_table_entry_16: "crc32c_table_entry 16 = 274646895"
  by (simp add: crc32c_table_entry_def crc32c_bit_step_def CRC32C_POLY_def eval_nat_numeral)

lemma crc32c_table_entry_21: "crc32c_table_entry 21 = 632279923"
  by (simp add: crc32c_table_entry_def crc32c_bit_step_def CRC32C_POLY_def eval_nat_numeral)

lemma crc32c_table_entry_22: "crc32c_table_entry 22 = 922689671"
  by (simp add: crc32c_table_entry_def crc32c_bit_step_def CRC32C_POLY_def eval_nat_numeral)

lemma crc32c_table_entry_26: "crc32c_table_entry 26 = 2075979607"
  by (simp add: crc32c_table_entry_def crc32c_bit_step_def CRC32C_POLY_def eval_nat_numeral)

lemma crc32c_table_entry_27: "crc32c_table_entry 27 = 2312596564"
  by (simp add: crc32c_table_entry_def crc32c_bit_step_def CRC32C_POLY_def eval_nat_numeral)

lemma crc32c_table_entry_56: "crc32c_table_entry 56 = 3124367742"
  by (simp add: crc32c_table_entry_def crc32c_bit_step_def CRC32C_POLY_def eval_nat_numeral)

lemma crc32c_table_entry_110: "crc32c_table_entry 110 = 3451792453"
  by (simp add: crc32c_table_entry_def crc32c_bit_step_def CRC32C_POLY_def eval_nat_numeral)

lemma crc32c_table_entry_117: "crc32c_table_entry 117 = 1147748369"
  by (simp add: crc32c_table_entry_def crc32c_bit_step_def CRC32C_POLY_def eval_nat_numeral)

lemma crc32c_table_entry_126: "crc32c_table_entry 126 = 3722505002"
  by (simp add: crc32c_table_entry_def crc32c_bit_step_def CRC32C_POLY_def eval_nat_numeral)

lemma crc32c_table_entry_133: "crc32c_table_entry 133 = 3070701412"
  by (simp add: crc32c_table_entry_def crc32c_bit_step_def CRC32C_POLY_def eval_nat_numeral)

lemma crc32c_table_entry_146: "crc32c_table_entry 146 = 1939049696"
  by (simp add: crc32c_table_entry_def crc32c_bit_step_def CRC32C_POLY_def eval_nat_numeral)

lemma crc32c_table_entry_148: "crc32c_table_entry 148 = 1429367560"
  by (simp add: crc32c_table_entry_def crc32c_bit_step_def CRC32C_POLY_def eval_nat_numeral)

lemma crc32c_table_entry_160: "crc32c_table_entry 160 = 2722870694"
  by (simp add: crc32c_table_entry_def crc32c_bit_step_def CRC32C_POLY_def eval_nat_numeral)

lemma crc32c_table_entry_162: "crc32c_table_entry 162 = 1131464017"
  by (simp add: crc32c_table_entry_def crc32c_bit_step_def CRC32C_POLY_def eval_nat_numeral)

lemma crc32c_table_entry_174: "crc32c_table_entry 174 = 238226049"
  by (simp add: crc32c_table_entry_def crc32c_bit_step_def CRC32C_POLY_def eval_nat_numeral)

lemma crc32c_table_entry_193: "crc32c_table_entry 193 = 837199303"
  by (simp add: crc32c_table_entry_def crc32c_bit_step_def CRC32C_POLY_def eval_nat_numeral)

lemma crc32c_table_entry_202: "crc32c_table_entry 202 = 2825850620"
  by (simp add: crc32c_table_entry_def crc32c_bit_step_def CRC32C_POLY_def eval_nat_numeral)

lemma crc32c_table_entry_218: "crc32c_table_entry 218 = 3090270611"
  by (simp add: crc32c_table_entry_def crc32c_bit_step_def CRC32C_POLY_def eval_nat_numeral)

lemma crc32c_table_entry_219: "crc32c_table_entry 219 = 1247431312"
  by (simp add: crc32c_table_entry_def crc32c_bit_step_def CRC32C_POLY_def eval_nat_numeral)

lemma crc32c_table_entry_232: "crc32c_table_entry 232 = 1776939221"
  by (simp add: crc32c_table_entry_def crc32c_bit_step_def CRC32C_POLY_def eval_nat_numeral)

lemma crc32c_table_entry_234: "crc32c_table_entry 234 = 2295496738"
  by (simp add: crc32c_table_entry_def crc32c_bit_step_def CRC32C_POLY_def eval_nat_numeral)

lemma crc32c_table_entry_239: "crc32c_table_entry 239 = 3173225534"
  by (simp add: crc32c_table_entry_def crc32c_bit_step_def CRC32C_POLY_def eval_nat_numeral)

lemma crc32c_table_entry_255: "crc32c_table_entry 255 = 2910671697"
  by (simp add: crc32c_table_entry_def crc32c_bit_step_def CRC32C_POLY_def eval_nat_numeral)


lemma replicate_33: "replicate 33 (0::byte) =
  [0, 0, 0, 0, 0, 0, 0, 0, 0, 0, 0, 0, 0, 0, 0, 0, 0, 0, 0, 0, 0, 0, 0, 0, 0, 0, 0, 0, 0, 0, 0, 0, 0]"
  by (simp add: eval_nat_numeral)

lemma example_length: "length example_words = 24"
  by (simp add: example_words_def)

lemma example_known: "\<forall>w \<in> set example_words. example_index w \<noteq> None"
  by (simp add: example_words_def example_index_def)

lemma example_packs: "mnemonic_to_bytes example_words example_index = Inr example_env"
  by (simp add: mnemonic_to_bytes_def example_words_def example_index_def example_env_def
      EncipheredCipherSeedSize_def BitsPerWord_def replicate_33 emit_loop_step emit_loop_done)

lemma example_crc: "crc32c (take 29 example_env) = 0x5DDD2BA6"
  by (simp add: example_env_def crc32c_def crc32c_table_nth crc32c_table_entry_7 crc32c_table_entry_14 crc32c_table_entry_16 crc32c_table_entry_21 crc32c_table_entry_22 crc32c_table_entry_26 crc32c_table_entry_27 crc32c_table_entry_45 crc32c_table_entry_56 crc32c_table_entry_92 crc32c_table_entry_110 crc32c_table_entry_117 crc32c_table_entry_126 crc32c_table_entry_133 crc32c_table_entry_146 crc32c_table_entry_148 crc32c_table_entry_160 crc32c_table_entry_162 crc32c_table_entry_174 crc32c_table_entry_193 crc32c_table_entry_202 crc32c_table_entry_218 crc32c_table_entry_219 crc32c_table_entry_232 crc32c_table_entry_234 crc32c_table_entry_239 crc32c_table_entry_255)

lemma example_checksum: "from_bytes_be (drop 29 example_env) = 0x5DDD2BA6"
  by (simp add: example_env_def from_bytes_be_def)

section \<open>Validation of a mnemonic\<close>

lemma py_index_0: "xs \<noteq> [] \<Longrightarrow> py_index xs 0 = Inr (xs ! 0)"
  by (simp add: py_index_def)

lemma env_slices:
  assumes "length env = 33"
  shows "py_index env 0 = Inr (env ! 0)"
    and "py_slice_from env (- 4) = drop 29 env"
    and "py_slice env 0 (EncipheredCipherSeedSize - 4) = take 29 env"
  using assms
  by (auto simp: py_index_def py_slice_from_def py_slice_def EncipheredCipherSeedSize_def)

lemma validate_mnemonic_packed:
  assumes "mnemonic_to_bytes ws word_to_index = Inr env"
  shows "validate_mnemonic ws word_to_index =
           Inr (env ! 0 = CipherSeedVersion \<and> from_bytes_be (drop 29 env) = crc32c (take 29 env))"
  using assms env_slices[OF mnemonic_to_bytes_length[OF assms]]
  by (simp add: validate_mnemonic_def Let_def)

lemma validate_mnemonic_unpacked:
  assumes "length ws \<noteq> 24 \<or> (\<exists>w \<in> set ws. word_to_index w = None)"
  shows "validate_mnemonic ws word_to_index = Inr False"
proof -
  obtain msg where "mnemonic_to_bytes ws word_to_index = Inl (InvalidMnemonicError msg)"
    using mnemonic_to_bytes_fail[OF assms] by blast
  then show ?thesis by (simp add: validate_mnemonic_def)
qed

text \<open>
  Claim C10. \<^verbatim>\<open>validate_mnemonic\<close> never raises: for every word sequence and every
  dictionary it returns a truth value. It returns \<^verbatim>\<open>False\<close> when the packing fails,
  which is when the word count is not 24 or a word is not in the dictionary; otherwise
  the packing gives a 33-byte envelope, and it returns \<^verbatim>\<open>True\<close> exactly when byte 0 is
  the version 0 and the big-endian number in the last four bytes is the CRC32C of the
  first 29 bytes.
\<close>

theorem validate_mnemonic_total:
  "(\<exists>b. validate_mnemonic ws word_to_index = Inr b) \<and>
   (length ws \<noteq> 24 \<or> (\<exists>w \<in> set ws. word_to_index w = None)
      \<longrightarrow> validate_mnemonic ws word_to_index = Inr False) \<and>
   (length ws = 24 \<and> (\<forall>w \<in> set ws. word_to_index w \<noteq> None)
      \<longrightarrow> (\<exists>env. mnemonic_to_bytes ws word_to_index = Inr env \<and> length env = 33 \<and>
                 validate_mnemonic ws word_to_index =
                   Inr (env ! 0 = CipherSeedVersion \<and>
                        from_bytes_be (drop (length env - 4) env) = crc32c (take 29 env))))"
proof (cases "length ws = 24 \<and> (\<forall>w \<in> set ws. word_to_index w \<noteq> None)")
  case True
  then obtain env where e: "mnemonic_to_bytes ws word_to_index = Inr env" and l: "length env = 33"
    using mnemonic_to_bytes_ok[of ws word_to_index] by blast
  show ?thesis
    using True e l validate_mnemonic_packed[OF e] by auto
next
  case False
  then have "length ws \<noteq> 24 \<or> (\<exists>w \<in> set ws. word_to_index w = None)" by auto
  from validate_mnemonic_unpacked[OF this] False show ?thesis by auto
qed

theorem validate_mnemonic_total_witness:
  "length example_words = 24 \<and>
   mnemonic_to_bytes example_words example_index = Inr example_env \<and>
   validate_mnemonic example_words example_index = Inr True \<and>
   length (tl example_words) \<noteq> 24 \<and>
   validate_mnemonic (tl example_words) example_index = Inr False"
proof -
  have v: "example_env ! 0 = CipherSeedVersion"
    by (simp add: example_env_def CipherSeedVersion_def)
  have c: "from_bytes_be (drop (length example_env - 4) example_env) = crc32c (take 29 example_env)"
    using example_crc example_checksum by (simp add: example_env_def)
  have t: "length (tl example_words) \<noteq> 24" by (simp add: example_words_def)
  show ?thesis
    using validate_mnemonic_total[of example_words example_index]
      validate_mnemonic_total[of "tl example_words" example_index]
      example_length example_known example_packs v c t
    by auto
qed

section \<open>The failures and the calls of the decoder\<close>

lemma tag_or_error: "tag_or x base is m = Inl e \<Longrightarrow> e = IndexError"
  by (induction "is" arbitrary: m) (auto simp: py_index_def split: sum.splits if_splits)

lemma tag_xor_or_error: "tag_xor_or x c is m = Inl e \<Longrightarrow> e = IndexError"
  by (induction "is" arbitrary: m) (auto simp: py_index_def split: sum.splits if_splits)

lemma aez_hash_error: "aez_hash st nonce ad tau = Inl e \<Longrightarrow> e = AssertionError"
  by (auto simp: aez_hash_def Let_def split: option.splits)

lemma aez_prf_error: "aez_prf st delta tau dst = Inl e \<Longrightarrow> e = AssertionError"
  by (auto simp: aez_prf_def Let_def split: option.splits prod.splits if_splits)

lemma aez_tiny_error: "aez_tiny st delta data direction dst = Inl e \<Longrightarrow> e = AssertionError"
  by (auto simp: aez_tiny_def Let_def split: option.splits prod.splits if_splits)

lemma aez_core_error: "aez_core st delta data direction dst = Inl e \<Longrightarrow> e = AssertionError"
  by (auto simp: aez_core_def aez_core_locals_def aez_core_pass1_def aez_core_pass2_def Let_def
      split: option.splits prod.splits if_splits sum.splits)

lemma decipher_error: "decipher st delta data dst = Inl e \<Longrightarrow> e = AssertionError"
  by (auto simp: decipher_def aez_tiny_error aez_core_error split: if_splits)

lemma aez_decrypt_error:
  "aez_decrypt blake2b key ad tau ciphertext = Inl e \<Longrightarrow> e = IndexError \<or> e = AssertionError"
  by (auto simp: aez_decrypt_def Let_def split: sum.splits if_splits
      dest: aez_hash_error aez_prf_error decipher_error tag_or_error tag_xor_or_error)

lemma utf8_char_error: "utf8_char cp = Inl e \<Longrightarrow> e = UnicodeEncodeError"
  by (auto simp: utf8_char_def split: if_splits)

lemma utf8_encode_error: "utf8_encode cps = Inl e \<Longrightarrow> e = UnicodeEncodeError"
  by (induction cps arbitrary: e) (auto split: sum.splits dest: utf8_char_error)

lemma utf8_encode_append:
  "utf8_encode (xs @ ys) =
     (case utf8_encode xs of
        Inl e \<Rightarrow> Inl e
      | Inr bs \<Rightarrow> (case utf8_encode ys of Inl e \<Rightarrow> Inl e | Inr cs \<Rightarrow> Inr (bs @ cs)))"
  by (induction xs) (auto split: sum.splits)

lemma utf8_encode_default: "utf8_encode DEFAULT_PASSPHRASE = Inr [0x61, 0x65, 0x7A, 0x65, 0x65, 0x64]"
  by (simp add: DEFAULT_PASSPHRASE_def utf8_char_def)

lemma decode_pack_fail:
  "mnemonic_to_bytes ws word_to_index = Inl e
     \<Longrightarrow> decode_mnemonic scrypt blake2b ws pp word_to_index = ([], Inl e)"
  by (simp add: decode_mnemonic_def)

lemma decode_version_fail:
  assumes "mnemonic_to_bytes ws word_to_index = Inr env" and "env ! 0 \<noteq> CipherSeedVersion"
  shows "decode_mnemonic scrypt blake2b ws pp word_to_index
           = ([], Inl (InvalidMnemonicError ''unsupported aezeed version''))"
  using assms env_slices[OF mnemonic_to_bytes_length[OF assms(1)]]
  by (simp add: decode_mnemonic_def)

lemma decode_checksum_fail:
  assumes "mnemonic_to_bytes ws word_to_index = Inr env" and "env ! 0 = CipherSeedVersion"
    and "from_bytes_be (drop 29 env) \<noteq> crc32c (take 29 env)"
  shows "decode_mnemonic scrypt blake2b ws pp word_to_index
           = ([], Inl (InvalidMnemonicError ''checksum mismatch''))"
  using assms env_slices[OF mnemonic_to_bytes_length[OF assms(1)]]
  by (simp add: decode_mnemonic_def Let_def)

lemma decode_encode_fail:
  assumes "mnemonic_to_bytes ws word_to_index = Inr env" and "env ! 0 = CipherSeedVersion"
    and "from_bytes_be (drop 29 env) = crc32c (take 29 env)"
    and "utf8_encode (DEFAULT_PASSPHRASE @ (case pp of None \<Rightarrow> [] | Some p \<Rightarrow> p)) = Inl e"
  shows "decode_mnemonic scrypt blake2b ws pp word_to_index = ([], Inl e)"
  using assms env_slices[OF mnemonic_to_bytes_length[OF assms(1)]]
  by (simp add: decode_mnemonic_def Let_def)

lemma decode_after_checks:
  assumes "mnemonic_to_bytes ws word_to_index = Inr env" and "env ! 0 = CipherSeedVersion"
    and "from_bytes_be (drop 29 env) = crc32c (take 29 env)"
    and "utf8_encode (DEFAULT_PASSPHRASE @ (case pp of None \<Rightarrow> [] | Some p \<Rightarrow> p)) = Inr pw"
  shows "decode_mnemonic scrypt blake2b ws pp word_to_index =
           ([ScryptCall pw (py_slice env 24 29) 32768 8 1 32 2000000000,
             AezDecryptCall (scrypt pw (py_slice env 24 29) 32768 8 1 32 2000000000)
               [CipherSeedVersion # py_slice env 24 29] 4 (py_slice env 1 24)],
            (case aez_decrypt blake2b (scrypt pw (py_slice env 24 29) 32768 8 1 32 2000000000)
                    [CipherSeedVersion # py_slice env 24 29] 4 (py_slice env 1 24) of
               Inl e \<Rightarrow> Inl e
             | Inr None \<Rightarrow> Inl InvalidPassphraseError
             | Inr (Some plaintext) \<Rightarrow>
                 if length plaintext \<noteq> 19 then Inl InvalidPassphraseError
                 else Inr \<lparr>entropy = drop 3 plaintext, salt = py_slice env 24 29,
                          internal_version = plaintext ! 0,
                          birthday = from_bytes_be (py_slice plaintext 1 3)\<rparr>))"
  using assms env_slices[OF mnemonic_to_bytes_length[OF assms(1)]]
  by (simp add: decode_mnemonic_def Let_def encode_ad_def EncipheredCipherSeedSize_def SaltSize_def
      CipherTextExpansion_def DecipheredCipherSeedSize_def split: sum.splits option.splits)

lemma decode_after_checks_not_mnemonic_error:
  assumes "mnemonic_to_bytes ws word_to_index = Inr env" and "env ! 0 = CipherSeedVersion"
    and "from_bytes_be (drop 29 env) = crc32c (take 29 env)"
  shows "snd (decode_mnemonic scrypt blake2b ws pp word_to_index) \<noteq> Inl (InvalidMnemonicError msg)"
proof (cases "utf8_encode (DEFAULT_PASSPHRASE @ (case pp of None \<Rightarrow> [] | Some p \<Rightarrow> p))")
  case (Inl e)
  then have "e = UnicodeEncodeError" by (rule utf8_encode_error)
  then show ?thesis using decode_encode_fail[OF assms Inl] by simp
next
  case (Inr pw)
  show ?thesis
    unfolding decode_after_checks[OF assms Inr]
    by (auto split: sum.splits option.splits dest: aez_decrypt_error)
qed

lemma env_slices_29:
  assumes "length env = 33"
  shows "py_slice env 29 33 = drop 29 env" and "py_slice env 0 29 = take 29 env"
  using assms by (simp_all add: py_slice_def)

text \<open>
  Claim C3. For every word sequence and every passphrase, \<^verbatim>\<open>decode_mnemonic\<close> raises
  \<^verbatim>\<open>InvalidMnemonicError\<close> exactly when the word count is not 24, or a word is not in
  the dictionary, or the packed envelope has a byte 0 other than the version 0, or the
  big-endian number in its bytes 29..33 is not the CRC32C of its bytes 0..29. When it
  does, no call to scrypt or to the cipher has been made, and the outcome is the same
  for every passphrase, every scrypt and every BLAKE2b.
\<close>

theorem decode_mnemonic_invalid_mnemonic:
  "((\<exists>msg. snd (decode_mnemonic scrypt blake2b ws pp word_to_index) = Inl (InvalidMnemonicError msg))
      \<longleftrightarrow>
    (length ws \<noteq> 24 \<or> (\<exists>w \<in> set ws. word_to_index w = None) \<or>
     (\<exists>env. mnemonic_to_bytes ws word_to_index = Inr env \<and>
        (env ! 0 \<noteq> CipherSeedVersion \<or>
         from_bytes_be (py_slice env 29 33) \<noteq> crc32c (py_slice env 0 29))))) \<and>
   ((\<exists>msg. snd (decode_mnemonic scrypt blake2b ws pp word_to_index) = Inl (InvalidMnemonicError msg))
      \<longrightarrow>
    (\<forall>scrypt' blake2b' pp'.
        decode_mnemonic scrypt' blake2b' ws pp' word_to_index =
          ([], snd (decode_mnemonic scrypt blake2b ws pp word_to_index))))"
proof (cases "mnemonic_to_bytes ws word_to_index")
  case (Inl e)
  have f: "length ws \<noteq> 24 \<or> (\<exists>w \<in> set ws. word_to_index w = None)"
    using mnemonic_to_bytes_Inr_iff[of ws word_to_index] Inl by auto
  obtain msg where "e = InvalidMnemonicError msg"
    using mnemonic_to_bytes_fail[OF f] Inl by auto
  then show ?thesis
    using f by (simp add: decode_pack_fail[OF Inl])
next
  case (Inr env)
  have k: "length ws = 24 \<and> (\<forall>w \<in> set ws. word_to_index w \<noteq> None)"
    using mnemonic_to_bytes_Inr_iff[of ws word_to_index] Inr by blast
  have l: "length env = 33" using Inr by (rule mnemonic_to_bytes_length)
  note s = env_slices_29[OF l]
  consider (version) "env ! 0 \<noteq> CipherSeedVersion"
    | (checksum) "env ! 0 = CipherSeedVersion"
        "from_bytes_be (drop 29 env) \<noteq> crc32c (take 29 env)"
    | (pass) "env ! 0 = CipherSeedVersion"
        "from_bytes_be (drop 29 env) = crc32c (take 29 env)"
    by blast
  then show ?thesis
  proof cases
    case version
    show ?thesis
      using version Inr by (simp add: decode_version_fail[OF Inr version])
  next
    case checksum
    show ?thesis
      using checksum Inr s by (simp add: decode_checksum_fail[OF Inr checksum])
  next
    case pass
    have "\<not> (\<exists>msg. snd (decode_mnemonic scrypt blake2b ws pp word_to_index)
                 = Inl (InvalidMnemonicError msg))"
      using decode_after_checks_not_mnemonic_error[OF Inr pass] by blast
    then show ?thesis
      using pass k Inr s by auto
  qed
qed

theorem decode_mnemonic_invalid_mnemonic_witness:
  "length (tl example_words) \<noteq> 24 \<and>
   decode_mnemonic (\<lambda>pw s n r p dklen maxmem. replicate dklen 0) (\<lambda>k. replicate 48 0)
      (tl example_words) None example_index
     = ([], Inl (InvalidMnemonicError ''aezeed mnemonics must have 24 words'')) \<and>
   (\<forall>scrypt' blake2b' pp'.
      decode_mnemonic scrypt' blake2b' (tl example_words) pp' example_index
        = ([], Inl (InvalidMnemonicError ''aezeed mnemonics must have 24 words'')))"
proof -
  have t: "length (tl example_words) \<noteq> 24" by (simp add: example_words_def)
  have d: "decode_mnemonic scrypt blake2b (tl example_words) pp example_index
     = ([], Inl (InvalidMnemonicError ''aezeed mnemonics must have 24 words''))"
    for scrypt blake2b pp
    using t by (simp add: decode_mnemonic_def mnemonic_to_bytes_def)
  show ?thesis
    using decode_mnemonic_invalid_mnemonic[of "\<lambda>pw s n r p dklen maxmem. replicate dklen 0"
        "\<lambda>k. replicate 48 0" "tl example_words" None example_index] t d
    by simp
qed

text \<open>
  Claim C4. Whenever \<^verbatim>\<open>decode_mnemonic\<close> reaches the key derivation, that is, whenever
  it makes any call at all, its first call is scrypt with the password bytes that are
  the UTF-8 encoding of the literal "aezeed" followed by the passphrase (by nothing for
  no passphrase), the salt that is bytes 24..29 of the envelope, and \<open>N = 32768\<close>,
  \<open>r = 8\<close>, \<open>p = 1\<close>, \<open>dkLen = 32\<close>; and the key it then hands to the cipher is the
  result of this call.
\<close>

theorem decode_mnemonic_kdf_inputs:
  "fst (decode_mnemonic scrypt blake2b ws pp word_to_index) \<noteq> [] \<longrightarrow>
   (\<exists>env pb password.
      mnemonic_to_bytes ws word_to_index = Inr env \<and>
      utf8_encode (case pp of None \<Rightarrow> [] | Some p \<Rightarrow> p) = Inr pb \<and>
      password = [0x61, 0x65, 0x7A, 0x65, 0x65, 0x64] @ pb \<and>
      utf8_encode (DEFAULT_PASSPHRASE @ (case pp of None \<Rightarrow> [] | Some p \<Rightarrow> p)) = Inr password \<and>
      fst (decode_mnemonic scrypt blake2b ws pp word_to_index) =
        [ScryptCall password (py_slice env 24 29) 32768 8 1 32 2000000000,
         AezDecryptCall (scrypt password (py_slice env 24 29) 32768 8 1 32 2000000000)
           [CipherSeedVersion # py_slice env 24 29] 4 (py_slice env 1 24)])"
proof
  assume ne: "fst (decode_mnemonic scrypt blake2b ws pp word_to_index) \<noteq> []"
  obtain env where e: "mnemonic_to_bytes ws word_to_index = Inr env"
    using ne decode_pack_fail[of ws word_to_index _ scrypt blake2b pp]
    by (cases "mnemonic_to_bytes ws word_to_index") auto
  have v: "env ! 0 = CipherSeedVersion"
  proof (rule ccontr)
    assume "env ! 0 \<noteq> CipherSeedVersion"
    from decode_version_fail[OF e this, of scrypt blake2b pp] ne show False by simp
  qed
  have c: "from_bytes_be (drop 29 env) = crc32c (take 29 env)"
  proof (rule ccontr)
    assume "from_bytes_be (drop 29 env) \<noteq> crc32c (take 29 env)"
    from decode_checksum_fail[OF e v this, of scrypt blake2b pp] ne show False by simp
  qed
  obtain password where
    p: "utf8_encode (DEFAULT_PASSPHRASE @ (case pp of None \<Rightarrow> [] | Some p \<Rightarrow> p)) = Inr password"
    using ne decode_encode_fail[OF e v c, of pp _ scrypt blake2b]
    by (cases "utf8_encode (DEFAULT_PASSPHRASE @ (case pp of None \<Rightarrow> [] | Some p \<Rightarrow> p))") auto
  obtain pb where pb: "utf8_encode (case pp of None \<Rightarrow> [] | Some p \<Rightarrow> p) = Inr pb"
    and pw: "password = [0x61, 0x65, 0x7A, 0x65, 0x65, 0x64] @ pb"
    using p by (auto simp: utf8_encode_append utf8_encode_default split: sum.splits)
  show "\<exists>env pb password.
      mnemonic_to_bytes ws word_to_index = Inr env \<and>
      utf8_encode (case pp of None \<Rightarrow> [] | Some p \<Rightarrow> p) = Inr pb \<and>
      password = [0x61, 0x65, 0x7A, 0x65, 0x65, 0x64] @ pb \<and>
      utf8_encode (DEFAULT_PASSPHRASE @ (case pp of None \<Rightarrow> [] | Some p \<Rightarrow> p)) = Inr password \<and>
      fst (decode_mnemonic scrypt blake2b ws pp word_to_index) =
        [ScryptCall password (py_slice env 24 29) 32768 8 1 32 2000000000,
         AezDecryptCall (scrypt password (py_slice env 24 29) 32768 8 1 32 2000000000)
           [CipherSeedVersion # py_slice env 24 29] 4 (py_slice env 1 24)]"
    using e pb pw p decode_after_checks[OF e v c p, of scrypt blake2b] by auto
qed

theorem decode_mnemonic_kdf_inputs_witness:
  "fst (decode_mnemonic (\<lambda>pw s n r p dklen maxmem. replicate dklen 0) (\<lambda>k. replicate 48 0)
          example_words (Some [112, 228]) example_index)
     = [ScryptCall [0x61, 0x65, 0x7A, 0x65, 0x65, 0x64, 0x70, 0xC3, 0xA4] [1, 2, 3, 4, 5]
          32768 8 1 32 2000000000,
        AezDecryptCall (replicate 32 0) [[0, 1, 2, 3, 4, 5]] 4
          [0, 0, 0, 0, 0, 0, 0, 0, 0, 0, 0, 0, 0, 0, 0, 0, 0, 0, 0, 0, 0, 0, 0]]"
proof -
  let ?s = "\<lambda>(pw :: bytes) (s :: bytes) (n :: nat) (r :: nat) (p :: nat) (dklen :: nat) (maxmem :: nat).
              replicate dklen (0 :: byte)"
  let ?b = "\<lambda>k :: bytes. replicate 48 (0 :: byte)"
  have v: "example_env ! 0 = CipherSeedVersion"
    by (simp add: example_env_def CipherSeedVersion_def)
  have c: "from_bytes_be (drop 29 example_env) = crc32c (take 29 example_env)"
    using example_crc example_checksum by simp
  have u: "utf8_encode (DEFAULT_PASSPHRASE @ (case Some [112, 228] of None \<Rightarrow> [] | Some p \<Rightarrow> p))
             = Inr [0x61, 0x65, 0x7A, 0x65, 0x65, 0x64, 0x70, 0xC3, 0xA4]"
    by (simp add: DEFAULT_PASSPHRASE_def utf8_char_def)
  have ne: "fst (decode_mnemonic ?s ?b example_words (Some [112, 228]) example_index) \<noteq> []"
    by (simp add: decode_after_checks[OF example_packs v c u])
  from decode_mnemonic_kdf_inputs[of ?s ?b example_words "Some [112, 228]" example_index] ne
  obtain env pb password where
    e: "mnemonic_to_bytes example_words example_index = Inr env"
    and p: "utf8_encode (DEFAULT_PASSPHRASE @ (case Some [112, 228] of None \<Rightarrow> [] | Some p \<Rightarrow> p))
              = Inr password"
    and f: "fst (decode_mnemonic ?s ?b example_words (Some [112, 228]) example_index) =
        [ScryptCall password (py_slice env 24 29) 32768 8 1 32 2000000000,
         AezDecryptCall (?s password (py_slice env 24 29) 32768 8 1 32 2000000000)
           [CipherSeedVersion # py_slice env 24 29] 4 (py_slice env 1 24)]"
    by blast
  have env: "env = example_env" using e example_packs by simp
  have pw: "password = [0x61, 0x65, 0x7A, 0x65, 0x65, 0x64, 0x70, 0xC3, 0xA4]"
    using p u by simp
  show ?thesis
    unfolding f env pw
    by (simp add: example_env_def py_slice_def CipherSeedVersion_def)
qed

end
